theory Spec2Isabelle
  imports Complex_Main
begin

section \<open>My\_Tpetra\_Vector.cpp: creating distributed Tpetra vectors\<close>

text \<open>
  The program is one routine, \<open>exampleRoutine\<close>, and its driver \<open>main\<close>. Every
  process of the communicator runs the same routine; the Maps and Vectors it builds are
  distributed objects, created and combined by collective calls of the Tpetra library.

  The embedding follows one process (of rank \<open>myRank\<close> among \<open>P\<close>) through the routine.
  What is local to the process is modelled locally: its output stream, the status of the
  shell command it runs, the calls it makes. A distributed object is modelled with the
  part of every process, since the library calls are collective and every process makes
  the same ones.

  Tpetra itself is not part of the program. Its Map queries are a parameter of the
  routine (\<open>MapQueries\<close>), the arithmetic of \<open>scalar_type\<close> is a parameter
  (\<open>ScalarTraits\<close>), and what the operating system and the random number generator give
  back is a parameter (\<open>environment\<close>). The Map and Vector operations are modelled from
  the specification's description of them.
\<close>

subsection \<open>Scalars, ordinals, errors, output\<close>

text \<open>
  \<open>scalar_type\<close> is \<open>double\<close>. Floating point arithmetic is not modelled: a scalar
  is a value of any type \<open>'a\<close>, and the operations on it are the fields of a traits
  record, as the source takes them from \<open>Teuchos::ScalarTraits<scalar_type>\<close>.
  \<open>st_lit\<close> converts a numeric literal of the source to \<open>scalar_type\<close>.
\<close>

record 'a ScalarTraits =
  st_zero :: 'a
  st_one :: 'a
  st_lit :: "rat \<Rightarrow> 'a"
  st_add :: "'a \<Rightarrow> 'a \<Rightarrow> 'a"
  st_mul :: "'a \<Rightarrow> 'a \<Rightarrow> 'a"
  st_squareroot :: "'a \<Rightarrow> 'a"

text \<open>
  The free instance of the traits: a scalar is the expression that computes it, with
  \<open>Entry r i\<close> for a value taken from outside (entry \<open>i\<close> of process \<open>r\<close>). Every
  other instance interprets these expressions.
\<close>

datatype expr =
    Zero | One | Lit rat | Entry nat nat
  | Add expr expr | Mul expr expr | Squareroot expr

definition exprTraits :: "expr ScalarTraits" where
  "exprTraits = \<lparr> st_zero = Zero, st_one = One, st_lit = Lit,
                  st_add = Add, st_mul = Mul, st_squareroot = Squareroot \<rparr>"

text \<open>\<open>global_ordinal_type\<close> is \<open>long\<close>; process counts and ranks are natural numbers.\<close>

type_synonym global_ordinal_type = int

text \<open>\<open>std::logic_error\<close> with its message: the only exception the routine throws.\<close>

datatype error = logic_error string

text \<open>What is written to a \<open>std::ostream\<close>, item by item.\<close>

datatype 'a out_item = Str string | Endl | IntVal int | ScalarVal 'a

subsection \<open>Maps\<close>

text \<open>
  Modelled from the spec: \<open>Tpetra::Map\<close>, a class of the library, not of this program.
  "Index Map: an immutable assignment of global integer indices to owning process ranks,
  either contiguous (block-partitioned) or explicit-list-based". \<open>gids m ! r\<close> is the
  list of the global indices that process \<open>r\<close> owns, in local order.
\<close>

record map_type =
  numGlobal :: nat
  indexBase :: global_ordinal_type
  gids :: "global_ordinal_type list list"

text \<open>
  Modelled from the spec: the constructor
  \<open>map_type (numGlobalElements, indexBase, comm, Tpetra::GloballyDistributed, node)\<close>,
  "a contiguous Map over numGlobalElements elements, base index 0", which "puts the same
  number of equations on each processor" (source, line 128). Process \<open>r\<close> owns one block
  of \<open>n div P\<close> consecutive indices; when \<open>P\<close> does not divide \<open>n\<close>, the first
  \<open>n mod P\<close> processes own one more.
\<close>

definition uniformCount :: "nat \<Rightarrow> nat \<Rightarrow> nat \<Rightarrow> nat" where
  "uniformCount n P r = n div P + (if r < n mod P then 1 else 0)"

definition uniformStart :: "nat \<Rightarrow> nat \<Rightarrow> nat \<Rightarrow> nat" where
  "uniformStart n P r = r * (n div P) + min r (n mod P)"

definition Map_uniform :: "nat \<Rightarrow> global_ordinal_type \<Rightarrow> nat
    \<Rightarrow> map_type" where
  "Map_uniform n base P =
     \<lparr> numGlobal = n, indexBase = base,
       gids = map (\<lambda>r. map (\<lambda>i. base + int (uniformStart n P r) + int i)
                              [0..<uniformCount n P r]) [0..<P] \<rparr>"

text \<open>
  Modelled from the spec: the constructor
  \<open>map_type (numGlobalElements, elementList, indexBase, comm, node)\<close>, which "takes, on
  each MPI process, a list of the global elements in the Map belonging to that process"
  (source, line 149). The call is collective: \<open>elementLists ! r\<close> is the \<open>elementList\<close> that
  process \<open>r\<close> passes.
\<close>

definition Map_fromLists ::
  "nat \<Rightarrow> global_ordinal_type list list \<Rightarrow> global_ordinal_type
      \<Rightarrow> map_type" where
  "Map_fromLists n elementLists base =
     \<lparr> numGlobal = n, indexBase = base, gids = elementLists \<rparr>"

text \<open>
  The three queries the routine asks of a Map. They are library code, so the routine
  takes them as a parameter.
\<close>

record MapQueries =
  isContiguous :: "map_type \<Rightarrow> bool"
  isCompatible :: "map_type \<Rightarrow> map_type \<Rightarrow> bool"
  isSameAs :: "map_type \<Rightarrow> map_type \<Rightarrow> bool"

text \<open>
  Modelled from the spec: the answers of \<open>Tpetra::Map\<close> to the three queries.
  \<^item> "Contiguous distribution: each process owns one unbroken block of global indices."
  \<^item> "Compatible maps: same total element count and partition shape, usable together in
    arithmetic even if not identical": the same global element count, and on every
    process the same number of owned elements.
  \<^item> Identical "as distributions": the same assignment of global indices to processes
    (with the same element count and index base).
\<close>

fun unbroken :: "global_ordinal_type list \<Rightarrow> bool" where
  "unbroken (a # b # xs) = (b = a + 1 \<and> unbroken (b # xs))"
| "unbroken _ = True"

definition Tpetra_isContiguous :: "map_type \<Rightarrow> bool" where
  "Tpetra_isContiguous m = list_all unbroken (gids m)"

definition Tpetra_isCompatible :: "map_type \<Rightarrow> map_type \<Rightarrow> bool" where
  "Tpetra_isCompatible m1 m2 =
     (numGlobal m1 = numGlobal m2 \<and> map length (gids m1) = map length (gids m2))"

definition Tpetra_isSameAs :: "map_type \<Rightarrow> map_type \<Rightarrow> bool" where
  "Tpetra_isSameAs m1 m2 =
     (numGlobal m1 = numGlobal m2 \<and> indexBase m1 = indexBase m2 \<and> gids m1 = gids m2)"

definition Tpetra :: MapQueries where
  "Tpetra = \<lparr> isContiguous = Tpetra_isContiguous,
              isCompatible = Tpetra_isCompatible,
              isSameAs = Tpetra_isSameAs \<rparr>"

subsection \<open>The world of one run\<close>

text \<open>
  A Vector holds a reference to its Map (\<open>RCP<const map_type>\<close>: the address of the
  Map object) and the entries; \<open>vdata v ! r\<close> are the entries stored on process \<open>r\<close>.
\<close>

record 'a vector_type =
  vmap :: nat
  vdata :: "'a list list"

text \<open>The calls with an effect that the routine makes, with their arguments.\<close>

datatype 'a call =
    Call_system string
  | Call_Map_uniform nat global_ordinal_type
  | Call_Map_fromList nat "global_ordinal_type list" global_ordinal_type
  | Call_Vector nat bool
  | Call_Vector_copy nat
  | Call_randomize nat
  | Call_putScalar nat 'a
  | Call_update2 nat 'a nat 'a
  | Call_update3 nat 'a nat 'a nat 'a
  | Call_norm2 nat

text \<open>
  The objects of a run live in a store: an \<open>RCP\<close> is the address (the index) of its
  object. \<open>out\<close> is what this process has written to the routine's stream, \<open>calls\<close>
  the calls it has made, oldest first.
\<close>

record 'a world =
  maps :: "map_type list"
  vecs :: "'a vector_type list"
  out :: "'a out_item list"
  calls :: "'a call list"

definition emptyWorld :: "'a world" where
  "emptyWorld = \<lparr> maps = [], vecs = [], out = [], calls = [] \<rparr>"

text \<open>
  What the routine takes from outside: the library's version string, the status that
  \<open>system\<close> returns for a command, the contents of memory that a Vector leaves
  uninitialized, and the values that \<open>randomize\<close> writes (both by process and local
  index).
\<close>

record 'a environment =
  version :: string
  systemStatus :: "string \<Rightarrow> int"
  uninitialized :: "nat \<Rightarrow> nat \<Rightarrow> 'a"
  randomValue :: "nat \<Rightarrow> nat \<Rightarrow> 'a"

definition print :: "'a out_item list \<Rightarrow> 'a world \<Rightarrow> 'a world" where
  "print items w = w\<lparr> out := out w @ items \<rparr>"

definition system_call :: "'a environment \<Rightarrow> string \<Rightarrow> 'a world
    \<Rightarrow> int \<times> 'a world" where
  "system_call E command w =
     (systemStatus E command, w\<lparr> calls := calls w @ [Call_system command] \<rparr>)"

definition new_Map_uniform ::
  "nat \<Rightarrow> global_ordinal_type \<Rightarrow> nat \<Rightarrow> 'a world \<Rightarrow>
      nat \<times> 'a world" where
  "new_Map_uniform n base P w =
     (length (maps w),
      w\<lparr> maps := maps w @ [Map_uniform n base P],
         calls := calls w @ [Call_Map_uniform n base] \<rparr>)"

definition new_Map_fromLists ::
  "nat \<Rightarrow> (nat \<Rightarrow> global_ordinal_type list) \<Rightarrow>
      global_ordinal_type \<Rightarrow> nat \<Rightarrow> nat
   \<Rightarrow> 'a world \<Rightarrow> nat \<times> 'a world" where
  "new_Map_fromLists n elementList base P myRank w =
     (length (maps w),
      w\<lparr> maps := maps w @ [Map_fromLists n (map elementList [0..<P]) base],
         calls := calls w @ [Call_Map_fromList n (elementList myRank) base] \<rparr>)"

subsection \<open>Vectors\<close>

text \<open>
  Modelled from the spec: the operations of \<open>Tpetra::Vector\<close>, a class of the library.
  \<^item> \<open>vector_type (map)\<close>: "zero-filled"; \<open>vector_type (map, false)\<close>: "uninitialized";
  \<^item> \<open>vector_type (*x)\<close>: a "deep copy", a new object with the Map and the entries of \<open>x\<close>;
  \<^item> \<open>randomize\<close>: "filled with pseudo-random values";
  \<^item> \<open>putScalar (c)\<close>: "set all entries" to \<open>c\<close>;
  \<^item> \<open>update (alpha, A, beta)\<close>: \<open>this = beta*this + alpha*A\<close>;
  \<^item> \<open>update (alpha, A, beta, B, gamma)\<close>: \<open>this = gamma*this + alpha*A + beta*B\<close>;
  \<^item> \<open>norm2\<close>: the Euclidean norm over the entries of all processes.
  A Vector has one entry for each global index of its Map. The updates combine entries
  of the same process and local index; the routine only combines Vectors of one Map, so
  the rows always have the same lengths. An address is the one a constructor returned,
  so every \<open>maps w ! m\<close> and \<open>vecs w ! v\<close> of the routine is in range.
\<close>

definition new_Vector :: "'a ScalarTraits \<Rightarrow> 'a environment \<Rightarrow> nat
    \<Rightarrow> bool \<Rightarrow> 'a world
   \<Rightarrow> nat \<times> 'a world" where
  "new_Vector T E m zeroOut w =
     (length (vecs w),
      w\<lparr> vecs := vecs w @
           [\<lparr> vmap = m,
              vdata = map (\<lambda>r. map (\<lambda>i. if zeroOut then st_zero T else
                  uninitialized E r i)
                                     [0..<length (gids (maps w ! m) ! r)])
                          [0..<length (gids (maps w ! m))] \<rparr>],
         calls := calls w @ [Call_Vector m zeroOut] \<rparr>)"

definition copy_Vector :: "nat \<Rightarrow> 'a world \<Rightarrow> nat \<times> 'a world" where
  "copy_Vector src w =
     (length (vecs w),
      w\<lparr> vecs := vecs w @ [vecs w ! src], calls := calls w @ [Call_Vector_copy src]
          \<rparr>)"

definition modify :: "nat \<Rightarrow> ('a list list \<Rightarrow> 'a list list) \<Rightarrow>
    'a world \<Rightarrow> 'a world" where
  "modify v f w = w\<lparr> vecs := (vecs w)[v := (vecs w ! v)\<lparr> vdata := f (vdata (vecs
      w ! v)) \<rparr>] \<rparr>"

definition logCall :: "'a call \<Rightarrow> 'a world \<Rightarrow> 'a world" where
  "logCall c w = w\<lparr> calls := calls w @ [c] \<rparr>"

definition randomize :: "'a environment \<Rightarrow> nat \<Rightarrow> 'a world \<Rightarrow>
    'a world" where
  "randomize E v w =
     logCall (Call_randomize v)
       (modify v (\<lambda>d. map (\<lambda>r. map (\<lambda>i. randomValue E r i)
           [0..<length (d ! r)])
                          [0..<length d]) w)"

definition putScalar :: "nat \<Rightarrow> 'a \<Rightarrow> 'a world \<Rightarrow> 'a world" where
  "putScalar v c w = logCall (Call_putScalar v c) (modify v (map (map (\<lambda>_. c))) w)"

definition update2 :: "'a ScalarTraits \<Rightarrow> nat \<Rightarrow> 'a \<Rightarrow> nat
    \<Rightarrow> 'a \<Rightarrow> 'a world \<Rightarrow> 'a world" where
  "update2 T v alpha A beta w =
     logCall (Call_update2 v alpha A beta)
       (modify v (\<lambda>d. map2 (map2 (\<lambda>t a. st_add T (st_mul T beta t)
           (st_mul T alpha a)))
                            d (vdata (vecs w ! A))) w)"

definition update3 ::
  "'a ScalarTraits \<Rightarrow> nat \<Rightarrow> 'a \<Rightarrow> nat \<Rightarrow> 'a
      \<Rightarrow> nat \<Rightarrow> 'a \<Rightarrow> 'a world \<Rightarrow> 'a world" where
  "update3 T v alpha A beta B gamma w =
     logCall (Call_update3 v alpha A beta B gamma)
       (modify v (\<lambda>d. map2 (\<lambda>row ab. map2 (\<lambda>t (a, b).
                               st_add T (st_add T (st_mul T gamma t) (st_mul T alpha a))
                                        (st_mul T beta b)) row ab)
                            d (map2 zip (vdata (vecs w ! A)) (vdata (vecs w ! B)))) w)"

definition norm2_of :: "'a ScalarTraits \<Rightarrow> 'a list list \<Rightarrow> 'a" where
  "norm2_of T d =
     st_squareroot T (foldl (st_add T) (st_zero T) (map (\<lambda>a. st_mul T a a) (concat d)))"

definition norm2 :: "'a ScalarTraits \<Rightarrow> nat \<Rightarrow> 'a world \<Rightarrow> 'a
    \<times> 'a world" where
  "norm2 T v w = (norm2_of T (vdata (vecs w ! v)), logCall (Call_norm2 v) w)"

subsection \<open>The routine\<close>

text \<open>
  \<open>TEST_FOR_EXCEPTION (throw_test, Exception, msg)\<close> throws \<open>Exception\<close> when
  \<open>throw_test\<close> holds. The macro is Teuchos'; the exception is modelled with the
  message the routine gives, without the file and line the macro puts before it.
\<close>

definition TEST_FOR_EXCEPTION :: "bool \<Rightarrow> (string \<Rightarrow> error) \<Rightarrow>
    string \<Rightarrow> 'w \<Rightarrow> error + 'w" where
  "TEST_FOR_EXCEPTION throw_test Exception msg w =
     (if throw_test then Inl (Exception msg) else Inr w)"

text \<open>
  Lines 156 to 162: \<open>elementList\<close> is an \<open>Array\<close> of \<open>numEltsPerProc\<close> entries, and
  the loop sets \<open>elementList[k] = myRank + k*numProcs\<close> for \<open>k\<close> from \<open>0\<close> while
  \<open>k < numEltsPerProc\<close>. The arithmetic is that of \<open>long\<close>, the type of \<open>k\<close>.
\<close>

function fillElementList ::
  "nat \<Rightarrow> nat \<Rightarrow> nat \<Rightarrow> nat \<Rightarrow> global_ordinal_type
      list \<Rightarrow> global_ordinal_type list" where
  "fillElementList numEltsPerProc numProcs myRank k elementList =
     (if k < numEltsPerProc
      then fillElementList numEltsPerProc numProcs myRank (Suc k)
             (elementList[k := int myRank + int k * int numProcs])
      else elementList)"
  by pat_completeness auto
termination
  by (relation "measure (\<lambda>(n, P, r, k, xs). n - k)") auto

definition elementListOf :: "nat \<Rightarrow> nat \<Rightarrow> global_ordinal_type list" where
  "elementListOf numProcs myRank =
     (let numEltsPerProc = 5
      in fillElementList numEltsPerProc numProcs myRank 0 (replicate numEltsPerProc 0))"

text \<open>
  Lines 22 to 26: the version, a line of text, the shell command and its status. The
  constant \<open>number\<close> of line 23 is never used.
\<close>

definition printHeader :: "'a environment \<Rightarrow> 'a world \<Rightarrow> 'a world" where
  "printHeader E w0 =
     (let w1 = print [Str (version E), Endl, Endl] w0;
          command = ''echo helloooo!'';
          w2 = print [Str ''This is a test'', Endl] w1;
          (status, w3) = system_call E command w2
      in print [IntVal status] w3)"

text \<open>
  Line 120: \<open>const Tpetra::global_size_t numGlobalElements = comm->getSize() * 5\<close>.
  Both factors are \<open>int\<close>, so the product is taken in \<open>int\<close> and only then converted to
  the unsigned \<open>global_size_t\<close>. \<open>int\<close> has 32 bits and \<open>global_size_t\<close> has 64, as
  on the 64-bit machines the source comment speaks of. A product beyond the range of
  \<open>int\<close> is undefined in C++; the model takes the two's complement result, which is what
  the processors compute. \<open>comm->getSize()\<close> is an \<open>int\<close> itself, so \<open>P\<close> is at most
  2147483647.
\<close>

definition int_times :: "int \<Rightarrow> int \<Rightarrow> int" where
  "int_times a b = (a * b + 2 ^ 31) mod 2 ^ 32 - 2 ^ 31"

definition global_size_t_of_int :: "int \<Rightarrow> nat" where
  "global_size_t_of_int i = nat (i mod 2 ^ 64)"

definition numGlobalElementsOf :: "nat \<Rightarrow> nat" where
  "numGlobalElementsOf P = global_size_t_of_int (int_times (int P) 5)"

text \<open>
  Lines 120 to 184: the two Maps and the four assertions on them. \<open>P\<close> is
  \<open>comm->getSize()\<close> and \<open>myRank\<close> is \<open>comm->getRank()\<close>. The result is the addresses
  of \<open>contigMap\<close> and \<open>cyclicMap\<close> with the new world, or the exception thrown.

\<close>

definition buildMaps ::
  "MapQueries \<Rightarrow> nat \<Rightarrow> nat \<Rightarrow> 'a world \<Rightarrow> error +
      (nat \<times> nat \<times> 'a world)" where
  "buildMaps L P myRank w0 =
     (let numGlobalElements = numGlobalElementsOf P;
          indexBase = 0;
          (contigMap, w1) = new_Map_uniform numGlobalElements indexBase P w0
      in case TEST_FOR_EXCEPTION (\<not> isContiguous L (maps w1 ! contigMap)) logic_error
                ''The supposedly contiguous Map isn't contiguous.'' w1 of
           Inl e \<Rightarrow> Inl e
         | Inr w2 \<Rightarrow>
      let (cyclicMap, w3) =
             new_Map_fromLists numGlobalElements (elementListOf P) indexBase P myRank w2
      in case TEST_FOR_EXCEPTION (P > 1 \<and> isContiguous L (maps w3 ! cyclicMap)) logic_error
                ''The cyclic Map claims to be contiguous.'' w3 of
           Inl e \<Rightarrow> Inl e
         | Inr w4 \<Rightarrow>
      case TEST_FOR_EXCEPTION
             (\<not> isCompatible L (maps w4 ! contigMap) (maps w4 ! cyclicMap)) logic_error
             ''contigMap should be compatible with cyclicMap, but it's not.'' w4 of
           Inl e \<Rightarrow> Inl e
         | Inr w5 \<Rightarrow>
      case TEST_FOR_EXCEPTION
             (P > 1 \<and> isSameAs L (maps w5 ! contigMap) (maps w5 ! cyclicMap)) logic_error
             ''contigMap should be compatible with cyclicMap, but it's not.'' w5 of
           Inl e \<Rightarrow> Inl e
         | Inr w6 \<Rightarrow> Inr (contigMap, cyclicMap, w6))"

text \<open>Lines 198 to 212: the three Vectors. The result is the addresses of \<open>x\<close>, \<open>y\<close>, \<open>z\<close>.\<close>

definition buildVectors ::
  "'a ScalarTraits \<Rightarrow> 'a environment \<Rightarrow> nat \<Rightarrow> 'a world
      \<Rightarrow> nat \<times> nat \<times> nat \<times> 'a world" where
  "buildVectors T E contigMap w0 =
     (let (x, w1) = new_Vector T E contigMap True w0;
          (y, w2) = copy_Vector x w1;
          (z, w3) = new_Vector T E contigMap False w2;
          w4 = randomize E z w3
      in (x, y, z, w4))"

text \<open>Lines 219 to 255: the updates, the norms and their printing.\<close>

definition arithmetic :: "'a ScalarTraits \<Rightarrow> nat \<Rightarrow> nat \<Rightarrow> nat
    \<Rightarrow> 'a world \<Rightarrow> 'a world" where
  "arithmetic T x y z w0 =
     (let w1 = putScalar x (st_one T) w0;
          alpha = st_lit T (314159 / 100000);
          beta = st_lit T (271828 / 100000);
          gamma = st_lit T (- 10);
          w2 = update2 T x alpha z beta w1;
          w3 = putScalar y (st_lit T 42) w2;
          w4 = update3 T y alpha x beta z gamma w3;
          (theNorm, w5) = norm2 T y w4;
          w6 = print [Str ''Norm of y: '', ScalarVal theNorm, Endl] w5;
          w7 = print [Str ''This is my new Code!'', Endl] w6;
          (theXNorm, w8) = norm2 T x w7;
          w9 = print [Str ''Norm of x?: '', ScalarVal theXNorm, Endl] w8;
          (theZNorm, w10) = norm2 T z w9
      in print [Str ''Norm of z?: '', ScalarVal theZNorm, Endl] w10)"

definition exampleRoutine ::
  "'a ScalarTraits \<Rightarrow> MapQueries \<Rightarrow> 'a environment \<Rightarrow> nat
      \<Rightarrow> nat \<Rightarrow> 'a world
   \<Rightarrow> error + 'a world" where
  "exampleRoutine T L E P myRank w0 =
     (case buildMaps L P myRank (printHeader E w0) of
        Inl e \<Rightarrow> Inl e
      | Inr (contigMap, cyclicMap, w1) \<Rightarrow>
          (let (x, y, z, w2) = buildVectors T E contigMap w1
           in Inr (arithmetic T x y z w2)))"

text \<open>
  \<open>main\<close>: the routine writes to \<open>std::cout\<close> on process 0 and to a black hole on the
  others. The result is the exit code with what reached \<open>std::cout\<close>; an exception
  that leaves the routine is caught nowhere and ends the process.
\<close>

definition main ::
  "'a ScalarTraits \<Rightarrow> MapQueries \<Rightarrow> 'a environment \<Rightarrow> nat
      \<Rightarrow> nat
   \<Rightarrow> error + (int \<times> 'a out_item list)" where
  "main T L E P myRank =
     (case exampleRoutine T L E P myRank emptyWorld of
        Inl e \<Rightarrow> Inl e
      | Inr w \<Rightarrow> Inr (0, if myRank = 0 then out w else []))"

subsection \<open>An environment and two predicates on calls, for the statements below\<close>

text \<open>
  An environment over the free scalars: \<open>system\<close> returns 0, uninitialized memory holds
  \<open>-1\<close>, and \<open>randomize\<close> writes \<open>Entry r i\<close> at entry \<open>i\<close> of process \<open>r\<close>.
\<close>

definition exampleEnv :: "expr environment" where
  "exampleEnv = \<lparr> version = ''Tpetra'', systemStatus = (\<lambda>_. 0),
                  uninitialized = (\<lambda>r i. Lit (- 1)), randomValue = Entry \<rparr>"

fun isSystemCall :: "'a call \<Rightarrow> bool" where
  "isSystemCall (Call_system command) = True"
| "isSystemCall _ = False"

text \<open>\<open>usesMap m c\<close>: the call \<open>c\<close> builds a Vector over the Map at address \<open>m\<close>.\<close>

fun usesMap :: "nat \<Rightarrow> 'a call \<Rightarrow> bool" where
  "usesMap m (Call_Vector m' zeroOut) = (m = m')"
| "usesMap m _ = False"

text \<open>
  The vector \<open>beta*ones + alpha*z\<close>, computed from \<open>z\<close> alone, in the words of the
  specification: \<open>ones\<close> is the Vector of the shape of \<open>z\<close> whose entries are all one.
\<close>

definition beta_ones_plus_alpha_z :: "'a ScalarTraits \<Rightarrow> 'a list list \<Rightarrow>
    'a list list" where
  "beta_ones_plus_alpha_z T z =
     (let alpha = st_lit T (314159 / 100000);
          beta = st_lit T (271828 / 100000);
          ones = map (map (\<lambda>_. st_one T)) z
      in map2 (map2 (\<lambda>one_i z_i. st_add T (st_mul T beta one_i)
          (st_mul T alpha z_i))) ones z)"

section \<open>Properties\<close>

subsection \<open>Lists\<close>

lemma zip_map_same: "zip (map g xs) (map h xs) = map (\<lambda>x. (g x, h x)) xs"
  by (induction xs) simp_all

lemma upt_0_5: "[0..<5] = [0, 1, 2, 3, 4]"
  by (simp add: numeral_eq_Suc)

lemma replicate_5: "replicate 5 c = [c, c, c, c, c]"
  by (simp add: numeral_eq_Suc)

lemma upt_0_2: "[0..<2] = [0, 1]"
  by (simp add: numeral_eq_Suc)

subsection \<open>The number of global elements\<close>

lemma numGlobalElementsOf_fits:
  "P * 5 \<le> 2147483647 \<Longrightarrow> numGlobalElementsOf P = P * 5"
  by (simp add: numGlobalElementsOf_def global_size_t_of_int_def int_times_def)

lemma numGlobalElementsOf_429496730: "numGlobalElementsOf 429496730 = 18446744071562067970"
  by (simp add: numGlobalElementsOf_def global_size_t_of_int_def int_times_def)

subsection \<open>The element list and the two Maps\<close>

lemma elementListOf_eq:
  "elementListOf P r =
     [int r, int r + int P, int r + 2 * int P, int r + 3 * int P, int r + 4 * int P]"
  by (simp add: elementListOf_def Let_def numeral_eq_Suc)

lemma elementListOf_map: "elementListOf P r = map (\<lambda>k. int r + int k * int P) [0..<5]"
  by (simp add: elementListOf_eq numeral_eq_Suc)

lemma uniform_5:
  "0 < P \<Longrightarrow> uniformCount (P * 5) P r = 5"
  "0 < P \<Longrightarrow> uniformStart (P * 5) P r = r * 5"
  by (simp_all add: uniformCount_def uniformStart_def)

lemma gids_uniform:
  "gids (Map_uniform n base P) =
     map (\<lambda>r. map (\<lambda>i. base + int (uniformStart n P r) + int i)
         [0..<uniformCount n P r])
         [0..<P]"
  by (simp add: Map_uniform_def)

lemma gids_contig:
  "gids (Map_uniform (P * 5) 0 P) = map (\<lambda>r. map (\<lambda>i. int (r * 5) + int i)
      [0..<5]) [0..<P]"
  by (cases "P = 0") (simp_all add: Map_uniform_def uniform_5)

lemma rows_of_5:
  "map (\<lambda>r. map (f r) [0..<uniformCount (P * 5) P r])
      [0..<P] = map (\<lambda>r. map (f r) [0..<5]) [0..<P]"
  by (cases "P = 0") (simp_all add: uniform_5)

text \<open>A list is unbroken when each entry is the one before it plus one.\<close>

lemma unbroken_iff:
  "unbroken xs = (\<forall>i. Suc i < length xs \<longrightarrow> xs ! Suc i = xs ! i + 1)"
proof (induction xs rule: unbroken.induct)
  case (1 a b xs)
  have "(\<forall>i. Suc i < length (a # b # xs) \<longrightarrow> (a # b # xs) ! Suc i
      = (a # b # xs) ! i + 1)
        = (b = a + 1 \<and> (\<forall>i. Suc i < length (b # xs) \<longrightarrow> (b # xs) !
            Suc i = (b # xs) ! i + 1))"
    (is "?L = ?R")
  proof
    assume l: ?L
    have "b = a + 1" using l [rule_format, of 0] by simp
    moreover have "\<forall>i. Suc i < length (b # xs) \<longrightarrow> (b # xs) ! Suc i
        = (b # xs) ! i + 1"
      using l [rule_format, of "Suc i" for i] by simp
    ultimately show ?R by blast
  next
    assume r: ?R
    show ?L
    proof (intro allI impI)
      fix i assume "Suc i < length (a # b # xs)"
      then show "(a # b # xs) ! Suc i = (a # b # xs) ! i + 1"
        using r by (cases i) simp_all
    qed
  qed
  with 1 show ?case by simp
qed simp_all

lemma unbroken_block: "unbroken (map (\<lambda>i. a + int i) [0..<k])"
  by (simp add: unbroken_iff)

lemma unbroken_elementListOf: "unbroken (elementListOf P r) = (P = 1)"
  by (simp add: elementListOf_eq)

lemma Map_uniform_contiguous: "Tpetra_isContiguous (Map_uniform n base P)"
  by (simp add: Tpetra_isContiguous_def Map_uniform_def list_all_iff unbroken_block)

lemma cyclic_contiguous_iff:
  "Tpetra_isContiguous (Map_fromLists n (map (elementListOf P) [0..<P]) base) = (P \<le> 1)"
proof (cases "P = 0")
  case True
  then show ?thesis
    by (simp add: Tpetra_isContiguous_def Map_fromLists_def)
next
  case False
  then have "0 \<in> set [0..<P]" by simp
  then have "list_all unbroken (map (elementListOf P) [0..<P]) = (P = 1)"
    unfolding list_all_iff by (auto simp add: unbroken_elementListOf)
  with False show ?thesis
    by (auto simp add: Tpetra_isContiguous_def Map_fromLists_def)
qed

lemma compatible_iff:
  "Tpetra_isCompatible (Map_uniform n 0 P) (Map_fromLists n (map (elementListOf P) [0..<P]) 0)
     = (\<forall>r < P. uniformCount n P r = 5)"
  by (auto simp add: Tpetra_isCompatible_def gids_uniform Map_fromLists_def elementListOf_eq
        Map_uniform_def)


lemma contig_cyclic_compatible:
  assumes "P * 5 \<le> 2147483647"
  shows "Tpetra_isCompatible (Map_uniform (numGlobalElementsOf P) 0 P)
     (Map_fromLists (numGlobalElementsOf P) (map (elementListOf P) [0..<P]) 0)"
  unfolding compatible_iff numGlobalElementsOf_fits [OF assms]
  by (auto simp add: uniform_5)


lemma contig_cyclic_same_iff:
  "Tpetra_isSameAs (Map_uniform n 0 P) (Map_fromLists n (map (elementListOf P) [0..<P]) 0)
     = (P = 0 \<or> P = 1 \<and> uniformCount n P 0 = 5)"
proof (cases "P = 0")
  case True
  then show ?thesis
    by (simp add: Tpetra_isSameAs_def Map_fromLists_def Map_uniform_def)
next
  case False
  have row0: "gids (Map_uniform n 0 P) ! 0 = map (\<lambda>i. int i) [0..<uniformCount n P 0]"
    using False by (simp add: gids_uniform uniformStart_def)
  show ?thesis
  proof (cases "P = 1")
    case True
    have "(map int [0..<uniformCount n 1 0] = [0, 1, 2, 3, 4]) = (uniformCount n 1 0 = 5)"
    proof
      assume "map int [0..<uniformCount n 1 0] = [0, 1, 2, 3, 4]"
      then have "length (map int [0..<uniformCount n 1 0]) = length [0, 1, 2, 3, 4 :: int]"
        by (rule arg_cong)
      then show "uniformCount n 1 0 = 5" by simp
    next
      assume "uniformCount n 1 0 = 5"
      then show "map int [0..<uniformCount n 1 0] = [0, 1, 2, 3, 4]"
        by (simp add: numeral_eq_Suc)
    qed
    then show ?thesis
      using True
      by (simp add: Tpetra_isSameAs_def Map_fromLists_def gids_uniform uniformStart_def
            elementListOf_eq)
         (simp add: Map_uniform_def)
  next
    case False
    with \<open>P \<noteq> 0\<close> have "1 < P" by simp
    have "map (\<lambda>i. int i) [0..<uniformCount n P 0] \<noteq> elementListOf P 0"
    proof
      assume e: "map (\<lambda>i. int i) [0..<uniformCount n P 0] = elementListOf P 0"
      then have "length (map (\<lambda>i. int i)
          [0..<uniformCount n P 0]) = length (elementListOf P 0)"
        by (rule arg_cong)
      then have c: "uniformCount n P 0 = 5" by (simp add: elementListOf_eq)
      have "map (\<lambda>i. int i) [0..<uniformCount n P 0] ! 1 = elementListOf P 0 ! 1"
        using e by simp
      then have "int 1 = int P" using c by (simp add: elementListOf_eq)
      with \<open>1 < P\<close> show False by simp
    qed
    then have "gids (Map_uniform n 0 P) ! 0 \<noteq> map (elementListOf P) [0..<P] ! 0"
      using \<open>1 < P\<close> unfolding row0 by simp
    then have "gids (Map_uniform n 0 P) \<noteq> map (elementListOf P) [0..<P]"
      by metis
    with \<open>1 < P\<close> show ?thesis
      by (simp add: Tpetra_isSameAs_def Map_fromLists_def)
  qed
qed

lemma contig_cyclic_same_1:
  "Tpetra_isSameAs (Map_uniform (numGlobalElementsOf 1) 0 1)
     (Map_fromLists (numGlobalElementsOf 1) (map (elementListOf 1) [0..<1]) 0)"
  unfolding contig_cyclic_same_iff
  by (simp add: numGlobalElementsOf_fits uniformCount_def)

lemma contig_cyclic_not_same:
  "1 < P \<Longrightarrow> \<not> Tpetra_isSameAs (Map_uniform n 0 P)
     (Map_fromLists n (map (elementListOf P) [0..<P]) 0)"
  unfolding contig_cyclic_same_iff by simp

subsection \<open>The parts of the routine, in closed form\<close>

lemma printHeader_eq:
  "printHeader E w =
     w\<lparr> out := out w @ [Str (version E), Endl, Endl, Str ''This is a test'', Endl,
                         IntVal (systemStatus E ''echo helloooo!'')],
        calls := calls w @ [Call_system ''echo helloooo!''] \<rparr>"
  by (simp add: printHeader_def print_def system_call_def Let_def)

lemma buildMaps_eq:
  "buildMaps L P myRank w =
     (if \<not> isContiguous L (Map_uniform (numGlobalElementsOf P) 0 P)
      then Inl (logic_error ''The supposedly contiguous Map isn't contiguous.'')
      else if 1 < P \<and> isContiguous L (Map_fromLists (numGlobalElementsOf P)
          (map (elementListOf P) [0..<P]) 0)
      then Inl (logic_error ''The cyclic Map claims to be contiguous.'')
      else if \<not> isCompatible L (Map_uniform (numGlobalElementsOf P) 0 P)
                    (Map_fromLists (numGlobalElementsOf P) (map (elementListOf P) [0..<P]) 0)
      then Inl (logic_error ''contigMap should be compatible with cyclicMap, but it's not.'')
      else if 1 < P \<and> isSameAs L (Map_uniform (numGlobalElementsOf P) 0 P)
                    (Map_fromLists (numGlobalElementsOf P) (map (elementListOf P) [0..<P]) 0)
      then Inl (logic_error ''contigMap should be compatible with cyclicMap, but it's not.'')
      else Inr (length (maps w), Suc (length (maps w)),
                w\<lparr> maps := maps w @ [Map_uniform (numGlobalElementsOf P) 0 P,
                                      Map_fromLists (numGlobalElementsOf P)
                                          (map (elementListOf P) [0..<P]) 0],
                   calls := calls w @ [Call_Map_uniform (numGlobalElementsOf P) 0,
                                       Call_Map_fromList (numGlobalElementsOf P) (elementListOf
                                           P myRank) 0] \<rparr>))"
  by (simp add: buildMaps_def TEST_FOR_EXCEPTION_def new_Map_uniform_def new_Map_fromLists_def
        Let_def nth_append)

lemma buildVectors_eq:
  assumes "maps w ! c = Map_uniform n 0 P"
  shows "buildVectors T E c w =
     (length (vecs w), Suc (length (vecs w)), Suc (Suc (length (vecs w))),
      w\<lparr> vecs := vecs w @
            [\<lparr> vmap = c, vdata = map (\<lambda>r. map (\<lambda>i. st_zero T)
                [0..<uniformCount n P r]) [0..<P] \<rparr>,
             \<lparr> vmap = c, vdata = map (\<lambda>r. map (\<lambda>i. st_zero T)
                 [0..<uniformCount n P r]) [0..<P] \<rparr>,
             \<lparr> vmap = c, vdata
                 = map (\<lambda>r. map (\<lambda>i. randomValue E r i)
                     [0..<uniformCount n P r]) [0..<P] \<rparr>],
         calls := calls w @ [Call_Vector c True, Call_Vector_copy (length (vecs w)),
                             Call_Vector c False,
                             Call_randomize (Suc (Suc (length (vecs w))))] \<rparr>)"
  using assms
  by (simp add: buildVectors_def new_Vector_def copy_Vector_def randomize_def modify_def
        logCall_def Let_def nth_append gids_uniform cong: map_cong)

lemma arithmetic_eq:
  assumes "vecs w =
     [\<lparr> vmap = c, vdata = map (\<lambda>r. map (\<lambda>i. x0 r i) [0..<k r])
         [0..<P] \<rparr>,
      \<lparr> vmap = c, vdata = map (\<lambda>r. map (\<lambda>i. y0 r i) [0..<k r])
          [0..<P] \<rparr>,
      \<lparr> vmap = c, vdata = map (\<lambda>r. map (\<lambda>i. z0 r i) [0..<k r])
          [0..<P] \<rparr>]"
  shows "arithmetic T 0 (Suc 0) (Suc (Suc 0)) w =
     (let alpha = st_lit T (314159 / 100000);
          beta = st_lit T (271828 / 100000);
          gamma = st_lit T (- 10);
          xd = map (\<lambda>r. map (\<lambda>i. st_add T (st_mul T beta (st_one T))
              (st_mul T alpha (z0 r i)))
                        [0..<k r]) [0..<P];
          yd = map (\<lambda>r. map (\<lambda>i. st_add T
                          (st_add T (st_mul T gamma (st_lit T 42))
                             (st_mul T alpha
                                (st_add T (st_mul T beta (st_one T)) (st_mul T alpha (z0 r i)))))
                          (st_mul T beta (z0 r i)))
                        [0..<k r]) [0..<P];
          zd = map (\<lambda>r. map (\<lambda>i. z0 r i) [0..<k r]) [0..<P]
      in w\<lparr> vecs := [\<lparr> vmap = c, vdata = xd \<rparr>, \<lparr> vmap = c, vdata
          = yd \<rparr>,
                      \<lparr> vmap = c, vdata = zd \<rparr>],
            out := out w @
              [Str ''Norm of y: '', ScalarVal (norm2_of T yd), Endl,
               Str ''This is my new Code!'', Endl,
               Str ''Norm of x?: '', ScalarVal (norm2_of T xd), Endl,
               Str ''Norm of z?: '', ScalarVal (norm2_of T zd), Endl],
            calls := calls w @
              [Call_putScalar 0 (st_one T), Call_update2 0 alpha 2 beta,
               Call_putScalar 1 (st_lit T 42), Call_update3 1 alpha 0 beta 2 gamma,
               Call_norm2 1, Call_norm2 0, Call_norm2 2] \<rparr>)"
  using assms
  by (simp add: arithmetic_def putScalar_def update2_def update3_def norm2_def modify_def
        logCall_def print_def Let_def zip_map_same comp_def numeral_2_eq_2)

lemma exampleRoutine_eq:
  "exampleRoutine T L E P myRank emptyWorld =
     (case buildMaps L P myRank (printHeader E emptyWorld) of
        Inl e \<Rightarrow> Inl e
      | Inr _ \<Rightarrow>
         (let alpha = st_lit T (314159 / 100000);
              beta = st_lit T (271828 / 100000);
              gamma = st_lit T (- 10);
              xd = map (\<lambda>r. map (\<lambda>i. st_add T (st_mul T beta (st_one T))
                                            (st_mul T alpha (randomValue E r i)))
                            [0..<uniformCount (numGlobalElementsOf P) P r]) [0..<P];
              yd = map (\<lambda>r. map (\<lambda>i. st_add T
                              (st_add T (st_mul T gamma (st_lit T 42))
                                 (st_mul T alpha
                                    (st_add T (st_mul T beta (st_one T))
                                              (st_mul T alpha (randomValue E r i)))))
                              (st_mul T beta (randomValue E r i)))
                            [0..<uniformCount (numGlobalElementsOf P) P r]) [0..<P];
              zd = map (\<lambda>r. map (\<lambda>i. randomValue E r i)
                            [0..<uniformCount (numGlobalElementsOf P) P r]) [0..<P]
          in Inr \<lparr> maps = [Map_uniform (numGlobalElementsOf P) 0 P,
                            Map_fromLists (numGlobalElementsOf P) (map (elementListOf P)
                                [0..<P]) 0],
                    vecs = [\<lparr> vmap = 0, vdata = xd \<rparr>, \<lparr> vmap = 0, vdata
                        = yd \<rparr>,
                            \<lparr> vmap = 0, vdata = zd \<rparr>],
                    out = [Str (version E), Endl, Endl, Str ''This is a test'', Endl,
                           IntVal (systemStatus E ''echo helloooo!''),
                           Str ''Norm of y: '', ScalarVal (norm2_of T yd), Endl,
                           Str ''This is my new Code!'', Endl,
                           Str ''Norm of x?: '', ScalarVal (norm2_of T xd), Endl,
                           Str ''Norm of z?: '', ScalarVal (norm2_of T zd), Endl],
                    calls = [Call_system ''echo helloooo!'',
                             Call_Map_uniform (numGlobalElementsOf P) 0,
                             Call_Map_fromList (numGlobalElementsOf P) (elementListOf P myRank) 0,
                             Call_Vector 0 True, Call_Vector_copy 0, Call_Vector 0 False,
                             Call_randomize 2,
                             Call_putScalar 0 (st_one T), Call_update2 0 alpha 2 beta,
                             Call_putScalar 1 (st_lit T 42),
                             Call_update3 1 alpha 0 beta 2 gamma,
                             Call_norm2 1, Call_norm2 0, Call_norm2 2] \<rparr>))"
proof (cases "buildMaps L P myRank (printHeader E emptyWorld)")
  case (Inl e)
  then show ?thesis by (simp add: exampleRoutine_def)
next
  case (Inr t)
  define w1 where "w1 = (printHeader E emptyWorld)
      \<lparr> maps := [Map_uniform (numGlobalElementsOf P) 0 P,
                 Map_fromLists (numGlobalElementsOf P) (map (elementListOf P) [0..<P]) 0],
        calls := [Call_system ''echo helloooo!'', Call_Map_uniform (numGlobalElementsOf P) 0,
                  Call_Map_fromList (numGlobalElementsOf P) (elementListOf P myRank) 0] \<rparr>"
  have t: "t = (0, Suc 0, w1)"
    using Inr unfolding buildMaps_eq w1_def
    by (simp add: printHeader_eq emptyWorld_def split: if_splits)
  have m: "maps w1 ! 0 = Map_uniform (numGlobalElementsOf P) 0 P" and v: "vecs w1 = []"
    by (simp_all add: w1_def printHeader_eq emptyWorld_def)
  have bv: "buildVectors T E 0 w1 =
     (0, Suc 0, Suc (Suc 0),
      w1\<lparr> vecs :=
            [\<lparr> vmap = 0, vdata = map (\<lambda>r. map (\<lambda>i. st_zero T)
                [0..<uniformCount (numGlobalElementsOf P) P r]) [0..<P] \<rparr>,
             \<lparr> vmap = 0, vdata = map (\<lambda>r. map (\<lambda>i. st_zero T)
                 [0..<uniformCount (numGlobalElementsOf P) P r]) [0..<P] \<rparr>,
             \<lparr> vmap = 0, vdata
                 = map (\<lambda>r. map (\<lambda>i. randomValue E r i)
                     [0..<uniformCount (numGlobalElementsOf P) P r]) [0..<P] \<rparr>],
         calls := calls w1 @ [Call_Vector 0 True, Call_Vector_copy 0,
                             Call_Vector 0 False, Call_randomize (Suc (Suc 0))] \<rparr>)"
    using buildVectors_eq [OF m, of T E] by (simp add: v)
  show ?thesis
    unfolding exampleRoutine_def Inr t
    by (simp add: bv arithmetic_eq Let_def)
       (simp add: w1_def printHeader_eq emptyWorld_def numeral_2_eq_2)
qed

lemma Tpetra_sel:
  "isContiguous Tpetra = Tpetra_isContiguous"
  "isCompatible Tpetra = Tpetra_isCompatible"
  "isSameAs Tpetra = Tpetra_isSameAs"
  by (simp_all add: Tpetra_def)

lemma buildMaps_Tpetra:
  assumes "P * 5 \<le> 2147483647"
  shows "buildMaps Tpetra P myRank w =
     Inr (length (maps w), Suc (length (maps w)),
          w\<lparr> maps := maps w @ [Map_uniform (numGlobalElementsOf P) 0 P,
                                Map_fromLists (numGlobalElementsOf P)
                                    (map (elementListOf P) [0..<P]) 0],
             calls := calls w @ [Call_Map_uniform (numGlobalElementsOf P) 0,
                                 Call_Map_fromList (numGlobalElementsOf P) (elementListOf P
                                     myRank) 0] \<rparr>)"
  unfolding buildMaps_eq
  by (simp add: Tpetra_sel Map_uniform_contiguous cyclic_contiguous_iff
        contig_cyclic_compatible [OF assms] contig_cyclic_not_same)

lemma exampleRoutine_maps:
  assumes "exampleRoutine T L E P myRank emptyWorld = Inr w"
  shows "maps w = [Map_uniform (numGlobalElementsOf P) 0 P,
                   Map_fromLists (numGlobalElementsOf P) (map (elementListOf P) [0..<P]) 0]"
  using assms unfolding exampleRoutine_eq
  by (auto simp add: Let_def split: sum.splits)

lemma exampleRoutine_Tpetra:
  assumes "P * 5 \<le> 2147483647"
  shows "\<exists>w. exampleRoutine T Tpetra E P myRank emptyWorld = Inr w"
  unfolding exampleRoutine_eq buildMaps_Tpetra [OF assms] by (simp add: Let_def)

lemma exampleRoutine_completed:
  assumes "exampleRoutine T L E P myRank emptyWorld = Inr w"
  shows "vecs w =
       [\<lparr> vmap = 0, vdata = map (\<lambda>r. map (\<lambda>i. st_add T
                 (st_mul T (st_lit T (271828 / 100000)) (st_one T))
                 (st_mul T (st_lit T (314159 / 100000)) (randomValue E r i)))
                     [0..<uniformCount (numGlobalElementsOf P) P r]) [0..<P] \<rparr>,
        \<lparr> vmap = 0, vdata = map (\<lambda>r. map (\<lambda>i. st_add T
                 (st_add T (st_mul T (st_lit T (- 10)) (st_lit T 42))
                    (st_mul T (st_lit T (314159 / 100000))
                       (st_add T (st_mul T (st_lit T (271828 / 100000)) (st_one T))
                                 (st_mul T (st_lit T (314159 / 100000)) (randomValue E r i)))))
                 (st_mul T (st_lit T (271828 / 100000)) (randomValue E r i)))
                     [0..<uniformCount (numGlobalElementsOf P) P r]) [0..<P] \<rparr>,
        \<lparr> vmap = 0, vdata = map (\<lambda>r. map (\<lambda>i. randomValue E r i)
            [0..<uniformCount (numGlobalElementsOf P) P r]) [0..<P] \<rparr>]"
    and "calls w =
       [Call_system ''echo helloooo!'', Call_Map_uniform (numGlobalElementsOf P) 0,
        Call_Map_fromList (numGlobalElementsOf P) (elementListOf P myRank) 0,
        Call_Vector 0 True, Call_Vector_copy 0, Call_Vector 0 False, Call_randomize 2,
        Call_putScalar 0 (st_one T),
        Call_update2 0 (st_lit T (314159 / 100000)) 2 (st_lit T (271828 / 100000)),
        Call_putScalar 1 (st_lit T 42),
        Call_update3 1 (st_lit T (314159 / 100000)) 0 (st_lit T (271828 / 100000)) 2
          (st_lit T (- 10)),
        Call_norm2 1, Call_norm2 0, Call_norm2 2]"
    and "out w =
       [Str (version E), Endl, Endl, Str ''This is a test'', Endl,
        IntVal (systemStatus E ''echo helloooo!''),
        Str ''Norm of y: '', ScalarVal (norm2_of T (vdata (vecs w ! 1))), Endl,
        Str ''This is my new Code!'', Endl,
        Str ''Norm of x?: '', ScalarVal (norm2_of T (vdata (vecs w ! 0))), Endl,
        Str ''Norm of z?: '', ScalarVal (norm2_of T (vdata (vecs w ! 2))), Endl]"
  using assms unfolding exampleRoutine_eq
  by (auto simp add: Let_def split: sum.splits)

lemma buildMaps_Inr:
  assumes "buildMaps L P myRank w = Inr (contigMap, cyclicMap, w1)"
  shows "contigMap = length (maps w)" "cyclicMap = Suc (length (maps w))"
    "w1 = w\<lparr> maps := maps w @ [Map_uniform (numGlobalElementsOf P) 0 P,
                                 Map_fromLists (numGlobalElementsOf P)
                                     (map (elementListOf P) [0..<P]) 0],
              calls := calls w @ [Call_Map_uniform (numGlobalElementsOf P) 0,
                                  Call_Map_fromList (numGlobalElementsOf P) (elementListOf P
                                      myRank) 0] \<rparr>"
  using assms unfolding buildMaps_eq by (simp_all split: if_splits)

lemma after_buildMaps:
  assumes "buildMaps L P myRank (printHeader E emptyWorld) = Inr (contigMap, cyclicMap, w1)"
  shows "contigMap = 0" "cyclicMap = 1" "vecs w1 = []"
    "maps w1 = [Map_uniform (numGlobalElementsOf P) 0 P,
                Map_fromLists (numGlobalElementsOf P) (map (elementListOf P) [0..<P]) 0]"
  using buildMaps_Inr [OF assms] by (simp_all add: printHeader_eq emptyWorld_def)

lemma const_rows: "map (\<lambda>r. map (\<lambda>i. c) [0..<n])
    [0..<P] = replicate P (replicate n c)"
  by (simp add: map_replicate_const)

lemma buildMaps_frame:
  "buildMaps L P myRank w = Inl e \<Longrightarrow> buildMaps L P myRank w' = Inl e"
  unfolding buildMaps_eq by (auto split: if_splits)

lemma uniformCount_fits:
  "P * 5 \<le> 2147483647 \<Longrightarrow> 0 < P \<Longrightarrow> uniformCount
      (numGlobalElementsOf P) P r = 5"
  by (simp add: numGlobalElementsOf_fits uniform_5)

lemma rows_fit:
  assumes "P * 5 \<le> 2147483647"
  shows "map (\<lambda>r. map (f r) [0..<uniformCount (numGlobalElementsOf P) P r]) [0..<P]
       = map (\<lambda>r. map (f r) [0..<5]) [0..<P]"
  unfolding numGlobalElementsOf_fits [OF assms] by (rule rows_of_5)

lemma zero_rows_fit:
  assumes "P * 5 \<le> 2147483647"
  shows "map (\<lambda>r. replicate (uniformCount (numGlobalElementsOf P) P r) c) [0..<P]
       = replicate P (replicate 5 c)"
  unfolding numGlobalElementsOf_fits [OF assms]
  by (cases "P = 0") (simp_all add: uniform_5 map_replicate_const)

lemma numGlobalElementsOf_429496729: "numGlobalElementsOf 429496729 = 2147483645"
  by (simp add: numGlobalElementsOf_def global_size_t_of_int_def int_times_def)

lemma exampleRoutine_lenient:
  "\<exists>w. exampleRoutine T (Tpetra\<lparr> isCompatible := \<lambda>m1 m2. True \<rparr>)
      E P myRank emptyWorld = Inr w"
  unfolding exampleRoutine_eq buildMaps_eq
  by (simp add: Tpetra_sel Map_uniform_contiguous cyclic_contiguous_iff contig_cyclic_not_same
        Let_def)

section \<open>The claims\<close>

text \<open>
  In a completed run from the empty world the objects have fixed addresses:
  \<open>contigMap\<close> is Map 0 and \<open>cyclicMap\<close> is Map 1; \<open>x\<close>, \<open>y\<close> and \<open>z\<close> are the
  Vectors 0, 1 and 2. The bound \<open>P * 5 \<le> 2147483647\<close> says that the product of line 120
  fits an \<open>int\<close>.
\<close>

text \<open>
  Claim C1. In a completed run, after the three Vectors are built and \<open>z\<close> is
  randomized, the calls are, in this order: \<open>x->putScalar (one)\<close>,
  \<open>x->update (alpha, z, beta)\<close>, \<open>y->putScalar (42)\<close>,
  \<open>y->update (alpha, x, beta, z, gamma)\<close>, with \<open>alpha = 3.14159\<close>,
  \<open>beta = 2.71828\<close> and \<open>gamma = -10\<close>, then \<open>norm2\<close> of \<open>y\<close>, of \<open>x\<close> and of
  \<open>z\<close>. At the end every entry of \<open>x\<close> is \<open>beta*1 + alpha*z\<close>, every entry of \<open>y\<close>
  is \<open>gamma*42 + alpha*x + beta*z\<close> for the updated \<open>x\<close>, and the output ends with the
  norms of \<open>y\<close>, \<open>x\<close> and \<open>z\<close>, in this order.
\<close>

theorem arithmetic_in_order:
  assumes "exampleRoutine T L E P myRank emptyWorld = Inr w"
  shows "let alpha = st_lit T (314159 / 100000);
             beta = st_lit T (271828 / 100000);
             gamma = st_lit T (- 10);
             x = 0; y = 1; z = 2
         in take 7 (calls w) =
              [Call_system ''echo helloooo!'', Call_Map_uniform (numGlobalElementsOf P) 0,
               Call_Map_fromList (numGlobalElementsOf P) (elementListOf P myRank) 0,
               Call_Vector 0 True, Call_Vector_copy x, Call_Vector 0 False, Call_randomize z]
          \<and> drop 7 (calls w) =
              [Call_putScalar x (st_one T), Call_update2 x alpha z beta,
               Call_putScalar y (st_lit T 42), Call_update3 y alpha x beta z gamma,
               Call_norm2 y, Call_norm2 x, Call_norm2 z]
          \<and> vdata (vecs w ! x) =
              map (map (\<lambda>z_i. st_add T (st_mul T beta (st_one T)) (st_mul T alpha z_i)))
                  (vdata (vecs w ! z))
          \<and> vdata (vecs w ! y) =
              map2 (map2 (\<lambda>x_i z_i. st_add T (st_add T (st_mul T gamma (st_lit T 42))
                                                        (st_mul T alpha x_i))
                                              (st_mul T beta z_i)))
                   (vdata (vecs w ! x)) (vdata (vecs w ! z))
          \<and> drop 6 (out w) =
              [Str ''Norm of y: '', ScalarVal (norm2_of T (vdata (vecs w ! y))), Endl,
               Str ''This is my new Code!'', Endl,
               Str ''Norm of x?: '', ScalarVal (norm2_of T (vdata (vecs w ! x))), Endl,
               Str ''Norm of z?: '', ScalarVal (norm2_of T (vdata (vecs w ! z))), Endl]"
  unfolding Let_def
  by (simp add: exampleRoutine_completed [OF assms] zip_map_same comp_def)

theorem arithmetic_in_order_witness:
  "\<exists>w. exampleRoutine exprTraits Tpetra exampleEnv 2 0 emptyWorld = Inr w
     \<and> drop 7 (calls w) =
         [Call_putScalar 0 One,
          Call_update2 0 (Lit (314159 / 100000)) 2 (Lit (271828 / 100000)),
          Call_putScalar 1 (Lit 42),
          Call_update3 1 (Lit (314159 / 100000)) 0 (Lit (271828 / 100000)) 2 (Lit (- 10)),
          Call_norm2 1, Call_norm2 0, Call_norm2 2]
     \<and> vdata (vecs w ! 0) ! 1 ! 3 =
         Add (Mul (Lit (271828 / 100000)) One) (Mul (Lit (314159 / 100000)) (Entry 1 3))"
proof -
  obtain w where w: "exampleRoutine exprTraits Tpetra exampleEnv 2 0 emptyWorld = Inr w"
    using exampleRoutine_Tpetra [of 2 exprTraits exampleEnv 0] by auto
  have z: "vdata (vecs w ! 2) = map (\<lambda>r. map (\<lambda>i. Entry r i) [0..<5]) [0..<2]"
    using rows_of_5 [of Entry 2]
    by (simp add: exampleRoutine_completed(1) [OF w] exampleEnv_def numGlobalElementsOf_fits)
  show ?thesis
    using w arithmetic_in_order [OF w]
    by (intro exI [of _ w]) (simp add: Let_def exprTraits_def z)
qed

text \<open>
  Claim C2. The routine computes \<open>numGlobalElements\<close> as the \<open>int\<close> product
  \<open>comm->getSize() * 5\<close>. With 429496729 processes this is \<open>P * 5\<close>. With 429496730
  processes the product is beyond the range of \<open>int\<close>: it becomes \<open>-2147483646\<close>,
  \<open>numGlobalElements\<close> is 18446744071562067970 and not \<open>P * 5\<close>, and this is the count
  the routine passes to the constructor of the contiguous Map (shown on the run that a
  library answering "compatible" lets complete). What holds for every \<open>P\<close>: the Map
  built over \<open>numGlobalElements\<close> elements answers that it is contiguous, and the routine
  never throws the logic error of the first assertion, whatever the other queries answer.
\<close>

theorem numGlobalElements_overflow:
  "numGlobalElementsOf 429496729 = 429496729 * 5
   \<and> int_times 429496730 5 = - 2147483646
   \<and> numGlobalElementsOf 429496730 = 18446744071562067970
   \<and> numGlobalElementsOf 429496730 \<noteq> 429496730 * 5
   \<and> (\<exists>w. exampleRoutine T (Tpetra\<lparr> isCompatible := \<lambda>m1 m2. True \<rparr>)
               E 429496730 myRank emptyWorld = Inr w
         \<and> calls w ! 1 = Call_Map_uniform 18446744071562067970 0
         \<and> numGlobal (maps w ! 0) = 18446744071562067970
         \<and> indexBase (maps w ! 0) = 0)
   \<and> isContiguous Tpetra (Map_uniform (numGlobalElementsOf P) 0 P)
   \<and> exampleRoutine T (L\<lparr> isContiguous := Tpetra_isContiguous \<rparr>) E P myRank w0
        \<noteq> Inl (logic_error ''The supposedly contiguous Map isn't contiguous.'')"
proof (intro conjI)
  show "numGlobalElementsOf 429496729 = 429496729 * 5"
    by (simp add: numGlobalElementsOf_429496729)
  show "int_times 429496730 5 = - 2147483646"
    by (simp add: int_times_def)
  show "numGlobalElementsOf 429496730 = 18446744071562067970"
    by (rule numGlobalElementsOf_429496730)
  show "numGlobalElementsOf 429496730 \<noteq> 429496730 * 5"
    by (simp add: numGlobalElementsOf_429496730)
  show "\<exists>w. exampleRoutine T (Tpetra\<lparr> isCompatible := \<lambda>m1 m2. True \<rparr>)
               E 429496730 myRank emptyWorld = Inr w
         \<and> calls w ! 1 = Call_Map_uniform 18446744071562067970 0
         \<and> numGlobal (maps w ! 0) = 18446744071562067970
         \<and> indexBase (maps w ! 0) = 0"
  proof -
    obtain w where w: "exampleRoutine T (Tpetra\<lparr> isCompatible := \<lambda>m1 m2. True \<rparr>)
                         E 429496730 myRank emptyWorld = Inr w"
      using exampleRoutine_lenient by blast
    have "calls w ! 1 = Call_Map_uniform (numGlobalElementsOf 429496730) 0"
      by (simp add: exampleRoutine_completed(2) [OF w])
    moreover have "maps w ! 0 = Map_uniform (numGlobalElementsOf 429496730) 0 429496730"
      by (simp add: exampleRoutine_maps [OF w])
    then have "numGlobal (maps w ! 0) = numGlobalElementsOf 429496730"
      and "indexBase (maps w ! 0) = 0"
      by (simp_all add: Map_uniform_def)
    ultimately show ?thesis
      using w unfolding numGlobalElementsOf_429496730 by blast
  qed
  show "isContiguous Tpetra (Map_uniform (numGlobalElementsOf P) 0 P)"
    by (simp add: Tpetra_sel Map_uniform_contiguous)
  show "exampleRoutine T (L\<lparr> isContiguous := Tpetra_isContiguous \<rparr>) E P myRank w0
        \<noteq> Inl (logic_error ''The supposedly contiguous Map isn't contiguous.'')"
    unfolding exampleRoutine_def buildMaps_eq
    by (simp add: Map_uniform_contiguous Let_def split: prod.splits)
qed

text \<open>
  Claim C3. For every process count \<open>P > 1\<close>, the cyclic Map, built from the lists
  \<open>r + k*P\<close> (\<open>k\<close> in \<open>[0,5)\<close>) of the processes \<open>r\<close>, answers that it is not
  contiguous: so it is in every completed run, whatever the queries answered, and where
  \<open>5 * P\<close> fits an \<open>int\<close> the run with Tpetra's answers is such a run. The routine never
  throws the logic error of the second assertion, for any \<open>P\<close> and whatever the other
  queries answer.
\<close>

theorem cyclicMap_not_contiguous:
  "(1 < P \<longrightarrow>
      (\<forall>L w. exampleRoutine T L E P myRank emptyWorld = Inr w \<longrightarrow>
           calls w ! 2 = Call_Map_fromList (numGlobalElementsOf P)
                            (map (\<lambda>k. int myRank + int k * int P) [0..<5]) 0
         \<and> gids (maps w ! 1)
             = map (\<lambda>r. map (\<lambda>k. int r + int k * int P) [0..<5]) [0..<P]
         \<and> \<not> isContiguous Tpetra (maps w ! 1))
    \<and> (P * 5 \<le> 2147483647 \<longrightarrow>
         (\<exists>w. exampleRoutine T Tpetra E P myRank emptyWorld = Inr w
            \<and> calls w ! 2 = Call_Map_fromList (P * 5)
                               (map (\<lambda>k. int myRank + int k * int P) [0..<5]) 0
            \<and> gids (maps w ! 1)
                = map (\<lambda>r. map (\<lambda>k. int r + int k * int P) [0..<5]) [0..<P]
            \<and> \<not> isContiguous Tpetra (maps w ! 1))))
   \<and> exampleRoutine T (L'\<lparr> isContiguous := Tpetra_isContiguous \<rparr>) E P myRank w0
        \<noteq> Inl (logic_error ''The cyclic Map claims to be contiguous.'')"
proof (intro conjI impI allI)
  fix L w
  assume P: "1 < P" and w: "exampleRoutine T L E P myRank emptyWorld = Inr w"
  show "calls w ! 2 = Call_Map_fromList (numGlobalElementsOf P)
                            (map (\<lambda>k. int myRank + int k * int P) [0..<5]) 0"
    by (simp add: exampleRoutine_completed(2) [OF w] elementListOf_map)
  have m: "maps w ! 1 = Map_fromLists (numGlobalElementsOf P) (map (elementListOf P) [0..<P]) 0"
    by (simp add: exampleRoutine_maps [OF w])
  show "gids (maps w ! 1) = map (\<lambda>r. map (\<lambda>k. int r + int k * int P)
      [0..<5]) [0..<P]"
    unfolding m by (simp add: Map_fromLists_def elementListOf_map)
  show "\<not> isContiguous Tpetra (maps w ! 1)"
    unfolding m using P by (simp add: Tpetra_sel cyclic_contiguous_iff)
next
  assume P: "1 < P" and b: "P * 5 \<le> 2147483647"
  obtain w where w: "exampleRoutine T Tpetra E P myRank emptyWorld = Inr w"
    using exampleRoutine_Tpetra [OF b] by blast
  have c: "calls w ! 2 = Call_Map_fromList (P * 5)
                            (map (\<lambda>k. int myRank + int k * int P) [0..<5]) 0"
    by (simp add: exampleRoutine_completed(2) [OF w] elementListOf_map
          numGlobalElementsOf_fits [OF b])
  have m: "maps w ! 1 = Map_fromLists (numGlobalElementsOf P) (map (elementListOf P) [0..<P]) 0"
    by (simp add: exampleRoutine_maps [OF w])
  have g: "gids (maps w ! 1) = map (\<lambda>r. map (\<lambda>k. int r + int k * int P)
      [0..<5]) [0..<P]"
    unfolding m by (simp add: Map_fromLists_def elementListOf_map)
  have n: "\<not> isContiguous Tpetra (maps w ! 1)"
    unfolding m using P by (simp add: Tpetra_sel cyclic_contiguous_iff)
  show "\<exists>w. exampleRoutine T Tpetra E P myRank emptyWorld = Inr w
         \<and> calls w ! 2 = Call_Map_fromList (P * 5)
                            (map (\<lambda>k. int myRank + int k * int P) [0..<5]) 0
         \<and> gids (maps w ! 1)
             = map (\<lambda>r. map (\<lambda>k. int r + int k * int P) [0..<5]) [0..<P]
         \<and> \<not> isContiguous Tpetra (maps w ! 1)"
    using w c g n by blast
next
  show "exampleRoutine T (L'\<lparr> isContiguous := Tpetra_isContiguous \<rparr>) E P myRank w0
        \<noteq> Inl (logic_error ''The cyclic Map claims to be contiguous.'')"
    unfolding exampleRoutine_def buildMaps_eq
    by (simp add: Map_uniform_contiguous cyclic_contiguous_iff Let_def split: prod.splits)
qed

theorem cyclicMap_not_contiguous_witness:
  "1 < (2::nat) \<and> (2::nat) * 5 \<le> 2147483647
   \<and> (\<exists>w. exampleRoutine exprTraits Tpetra exampleEnv 2 0 emptyWorld = Inr w
         \<and> calls w ! 2 = Call_Map_fromList 10 [0, 2, 4, 6, 8] 0
         \<and> gids (maps w ! 1) = [[0, 2, 4, 6, 8], [1, 3, 5, 7, 9]]
         \<and> \<not> isContiguous Tpetra (maps w ! 1))"
  using cyclicMap_not_contiguous
          [where P = 2 and T = exprTraits and E = exampleEnv and myRank = 0 and L' = Tpetra
             and ?w0.0 = emptyWorld]
  by (simp add: upt_0_5 upt_0_2)


text \<open>
  Claim C5. For every process count \<open>P > 1\<close>, \<open>isSameAs\<close> answers no for the
  contiguous and the cyclic Map: so it is in every completed run, and where \<open>5 * P\<close>
  fits an \<open>int\<close> the run with Tpetra's answers is such a run. For \<open>P = 1\<close> the two Maps
  coincide and \<open>isSameAs\<close> answers yes, but the run completes: the fourth assertion is
  guarded by \<open>P > 1\<close>, so with one process the routine does not depend on what
  \<open>isSameAs\<close> answers. For every \<open>P\<close> the fourth assertion cannot throw: the routine
  runs as it does with a query that always answers no.
\<close>

theorem contigMap_cyclicMap_not_same:
  "(1 < P \<longrightarrow>
      (\<forall>L w. exampleRoutine T L E P myRank emptyWorld = Inr w \<longrightarrow>
           \<not> isSameAs Tpetra (maps w ! 0) (maps w ! 1))
    \<and> (P * 5 \<le> 2147483647 \<longrightarrow>
         (\<exists>w. exampleRoutine T Tpetra E P myRank emptyWorld = Inr w
            \<and> \<not> isSameAs Tpetra (maps w ! 0) (maps w ! 1))))
   \<and> (\<exists>w. exampleRoutine T Tpetra E 1 myRank emptyWorld = Inr w
         \<and> isSameAs Tpetra (maps w ! 0) (maps w ! 1))
   \<and> exampleRoutine T (L'\<lparr> isSameAs := f \<rparr>) E 1 myRank w0
       = exampleRoutine T L' E 1 myRank w0
   \<and> exampleRoutine T (L'\<lparr> isSameAs := Tpetra_isSameAs \<rparr>) E P myRank w0
        = exampleRoutine T (L'\<lparr> isSameAs := \<lambda>m1 m2. False \<rparr>) E P myRank w0"
proof (intro conjI impI allI)
  fix L w
  assume P: "1 < P" and w: "exampleRoutine T L E P myRank emptyWorld = Inr w"
  show "\<not> isSameAs Tpetra (maps w ! 0) (maps w ! 1)"
    using P by (simp add: exampleRoutine_maps [OF w] Tpetra_sel contig_cyclic_not_same)
next
  assume P: "1 < P" and b: "P * 5 \<le> 2147483647"
  obtain w where w: "exampleRoutine T Tpetra E P myRank emptyWorld = Inr w"
    using exampleRoutine_Tpetra [OF b] by blast
  have "\<not> isSameAs Tpetra (maps w ! 0) (maps w ! 1)"
    using P by (simp add: exampleRoutine_maps [OF w] Tpetra_sel contig_cyclic_not_same)
  with w show "\<exists>w. exampleRoutine T Tpetra E P myRank emptyWorld = Inr w
         \<and> \<not> isSameAs Tpetra (maps w ! 0) (maps w ! 1)"
    by blast
next
  obtain w where w: "exampleRoutine T Tpetra E 1 myRank emptyWorld = Inr w"
    using exampleRoutine_Tpetra [of 1 T E myRank] by auto
  have "isSameAs Tpetra (maps w ! 0) (maps w ! 1)"
    using contig_cyclic_same_1
    by (simp add: exampleRoutine_maps [OF w] Tpetra_sel)
  with w show "\<exists>w. exampleRoutine T Tpetra E 1 myRank emptyWorld = Inr w
         \<and> isSameAs Tpetra (maps w ! 0) (maps w ! 1)"
    by blast
next
  show "exampleRoutine T (L'\<lparr> isSameAs := f \<rparr>) E 1 myRank w0
      = exampleRoutine T L' E 1 myRank w0"
    unfolding exampleRoutine_def buildMaps_eq by simp
next
  show "exampleRoutine T (L'\<lparr> isSameAs := Tpetra_isSameAs \<rparr>) E P myRank w0
        = exampleRoutine T (L'\<lparr> isSameAs := \<lambda>m1 m2. False \<rparr>) E P myRank w0"
  proof (cases "1 < P")
    case True
    then show ?thesis
      unfolding exampleRoutine_def buildMaps_eq by (simp add: contig_cyclic_not_same)
  next
    case False
    then show ?thesis
      unfolding exampleRoutine_def buildMaps_eq by simp
  qed
qed

theorem contigMap_cyclicMap_not_same_witness:
  "1 < (2::nat) \<and> (2::nat) * 5 \<le> 2147483647
   \<and> (\<exists>w. exampleRoutine exprTraits Tpetra exampleEnv 2 0 emptyWorld = Inr w
         \<and> \<not> isSameAs Tpetra (maps w ! 0) (maps w ! 1))"
  using contigMap_cyclicMap_not_same
          [where P = 2 and T = exprTraits and E = exampleEnv and myRank = 0 and L' = Tpetra
             and f = "\<lambda>m1 m2. True" and ?w0.0 = emptyWorld]
  by simp

text \<open>
  Claim C6. When the Maps are built, the routine allocates three Vectors, all over
  \<open>contigMap\<close>, each with one entry for every index a process owns in that Map (five
  on every process where \<open>5 * P\<close> fits an \<open>int\<close>): \<open>x\<close> with every entry zero; \<open>y\<close>, a
  new object with the Map and the entries of \<open>x\<close>, so zero as well; and \<open>z\<close>, whose
  entries are what the memory held until \<open>randomize\<close> writes the random values. A
  completed run ends with exactly these three Vectors.
\<close>

theorem three_vectors:
  assumes "buildMaps L P myRank (printHeader E emptyWorld) = Inr (contigMap, cyclicMap, w1)"
  shows "(let count = uniformCount (numGlobalElementsOf P) P;
              zeros = map (\<lambda>r. replicate (count r) (st_zero T)) [0..<P];
              garbage = map (\<lambda>r. map (\<lambda>i. uninitialized E r i)
                  [0..<count r]) [0..<P];
              random = map (\<lambda>r. map (\<lambda>i. randomValue E r i) [0..<count r]) [0..<P]
          in (case new_Vector T E contigMap True w1 of (x, wa) \<Rightarrow>
              case copy_Vector x wa of (y, wb) \<Rightarrow>
              case new_Vector T E contigMap False wb of (z, wc) \<Rightarrow>
                x = 0 \<and> y = 1 \<and> z = 2
              \<and> maps wc ! contigMap = Map_uniform (numGlobalElementsOf P) 0 P
              \<and> map length (gids (maps wc ! contigMap)) = map count [0..<P]
              \<and> vecs wa = [\<lparr> vmap = contigMap, vdata = zeros \<rparr>]
              \<and> vecs wb = [\<lparr> vmap = contigMap, vdata = zeros \<rparr>,
                            \<lparr> vmap = contigMap, vdata = zeros \<rparr>]
              \<and> vecs wc = [\<lparr> vmap = contigMap, vdata = zeros \<rparr>,
                            \<lparr> vmap = contigMap, vdata = zeros \<rparr>,
                            \<lparr> vmap = contigMap, vdata = garbage \<rparr>]
              \<and> buildVectors T E contigMap w1 = (x, y, z, randomize E z wc)
              \<and> vecs (randomize E z wc) =
                           [\<lparr> vmap = contigMap, vdata = zeros \<rparr>,
                            \<lparr> vmap = contigMap, vdata = zeros \<rparr>,
                            \<lparr> vmap = contigMap, vdata = random \<rparr>]
              \<and> calls (randomize E z wc) =
                   calls w1 @ [Call_Vector contigMap True, Call_Vector_copy x,
                               Call_Vector contigMap False, Call_randomize z])
           \<and> (P * 5 \<le> 2147483647 \<longrightarrow>
                 numGlobalElementsOf P = P * 5
               \<and> zeros = replicate P (replicate 5 (st_zero T))
               \<and> garbage = map (\<lambda>r. map (\<lambda>i. uninitialized E r i)
                   [0..<5]) [0..<P]
               \<and> random = map (\<lambda>r. map (\<lambda>i. randomValue E r i)
                   [0..<5]) [0..<P]))
       \<and> (\<exists>w. exampleRoutine T L E P myRank emptyWorld
           = Inr w \<and> length (vecs w) = 3)"
proof
  note a = after_buildMaps [OF assms]
  show "\<exists>w. exampleRoutine T L E P myRank emptyWorld = Inr w \<and> length (vecs w) = 3"
    unfolding exampleRoutine_eq assms by (simp add: Let_def)
  have fit: "P * 5 \<le> 2147483647 \<longrightarrow>
                 numGlobalElementsOf P = P * 5
               \<and> map (\<lambda>r. replicate (uniformCount (numGlobalElementsOf P) P r)
                   (st_zero T)) [0..<P]
                   = replicate P (replicate 5 (st_zero T))
               \<and> map (\<lambda>r. map (\<lambda>i. uninitialized E r i)
                               [0..<uniformCount (numGlobalElementsOf P) P r]) [0..<P]
                   = map (\<lambda>r. map (\<lambda>i. uninitialized E r i) [0..<5]) [0..<P]
               \<and> map (\<lambda>r. map (\<lambda>i. randomValue E r i)
                               [0..<uniformCount (numGlobalElementsOf P) P r]) [0..<P]
                   = map (\<lambda>r. map (\<lambda>i. randomValue E r i) [0..<5]) [0..<P]"
    using numGlobalElementsOf_fits [of P] zero_rows_fit [of P "st_zero T"]
      rows_fit [of P "\<lambda>r i. uninitialized E r i"] rows_fit [of P "\<lambda>r i.
          randomValue E r i"]
    by blast
  have run: "case new_Vector T E contigMap True w1 of (x, wa) \<Rightarrow>
              case copy_Vector x wa of (y, wb) \<Rightarrow>
              case new_Vector T E contigMap False wb of (z, wc) \<Rightarrow>
                x = 0 \<and> y = 1 \<and> z = 2
              \<and> maps wc ! contigMap = Map_uniform (numGlobalElementsOf P) 0 P
              \<and> map length (gids (maps wc ! contigMap))
                  = map (uniformCount (numGlobalElementsOf P) P) [0..<P]
              \<and> vecs wa = [\<lparr> vmap = contigMap, vdata =
                   map (\<lambda>r. replicate (uniformCount (numGlobalElementsOf P) P r)
                       (st_zero T))
                       [0..<P] \<rparr>]
              \<and> vecs wb = [\<lparr> vmap = contigMap, vdata =
                   map (\<lambda>r. replicate (uniformCount (numGlobalElementsOf P) P r)
                       (st_zero T))
                       [0..<P] \<rparr>,
                            \<lparr> vmap = contigMap, vdata =
                   map (\<lambda>r. replicate (uniformCount (numGlobalElementsOf P) P r)
                       (st_zero T))
                       [0..<P] \<rparr>]
              \<and> vecs wc = [\<lparr> vmap = contigMap, vdata =
                   map (\<lambda>r. replicate (uniformCount (numGlobalElementsOf P) P r)
                       (st_zero T))
                       [0..<P] \<rparr>,
                            \<lparr> vmap = contigMap, vdata =
                   map (\<lambda>r. replicate (uniformCount (numGlobalElementsOf P) P r)
                       (st_zero T))
                       [0..<P] \<rparr>,
                            \<lparr> vmap = contigMap, vdata =
                   map (\<lambda>r. map (\<lambda>i. uninitialized E r i)
                                  [0..<uniformCount (numGlobalElementsOf P) P r])
                                      [0..<P] \<rparr>]
              \<and> buildVectors T E contigMap w1 = (x, y, z, randomize E z wc)
              \<and> vecs (randomize E z wc) =
                           [\<lparr> vmap = contigMap, vdata =
                   map (\<lambda>r. replicate (uniformCount (numGlobalElementsOf P) P r)
                       (st_zero T))
                       [0..<P] \<rparr>,
                            \<lparr> vmap = contigMap, vdata =
                   map (\<lambda>r. replicate (uniformCount (numGlobalElementsOf P) P r)
                       (st_zero T))
                       [0..<P] \<rparr>,
                            \<lparr> vmap = contigMap, vdata =
                   map (\<lambda>r. map (\<lambda>i. randomValue E r i)
                                  [0..<uniformCount (numGlobalElementsOf P) P r])
                                      [0..<P] \<rparr>]
              \<and> calls (randomize E z wc) =
                   calls w1 @ [Call_Vector contigMap True, Call_Vector_copy x,
                               Call_Vector contigMap False, Call_randomize z]"
    by (simp add: buildVectors_def new_Vector_def copy_Vector_def randomize_def modify_def
          logCall_def Let_def a gids_uniform numeral_2_eq_2 map_replicate_const comp_def
          cong: map_cong)
  show "let count = uniformCount (numGlobalElementsOf P) P;
              zeros = map (\<lambda>r. replicate (count r) (st_zero T)) [0..<P];
              garbage = map (\<lambda>r. map (\<lambda>i. uninitialized E r i)
                  [0..<count r]) [0..<P];
              random = map (\<lambda>r. map (\<lambda>i. randomValue E r i) [0..<count r]) [0..<P]
          in (case new_Vector T E contigMap True w1 of (x, wa) \<Rightarrow>
              case copy_Vector x wa of (y, wb) \<Rightarrow>
              case new_Vector T E contigMap False wb of (z, wc) \<Rightarrow>
                x = 0 \<and> y = 1 \<and> z = 2
              \<and> maps wc ! contigMap = Map_uniform (numGlobalElementsOf P) 0 P
              \<and> map length (gids (maps wc ! contigMap)) = map count [0..<P]
              \<and> vecs wa = [\<lparr> vmap = contigMap, vdata = zeros \<rparr>]
              \<and> vecs wb = [\<lparr> vmap = contigMap, vdata = zeros \<rparr>,
                            \<lparr> vmap = contigMap, vdata = zeros \<rparr>]
              \<and> vecs wc = [\<lparr> vmap = contigMap, vdata = zeros \<rparr>,
                            \<lparr> vmap = contigMap, vdata = zeros \<rparr>,
                            \<lparr> vmap = contigMap, vdata = garbage \<rparr>]
              \<and> buildVectors T E contigMap w1 = (x, y, z, randomize E z wc)
              \<and> vecs (randomize E z wc) =
                           [\<lparr> vmap = contigMap, vdata = zeros \<rparr>,
                            \<lparr> vmap = contigMap, vdata = zeros \<rparr>,
                            \<lparr> vmap = contigMap, vdata = random \<rparr>]
              \<and> calls (randomize E z wc) =
                   calls w1 @ [Call_Vector contigMap True, Call_Vector_copy x,
                               Call_Vector contigMap False, Call_randomize z])
           \<and> (P * 5 \<le> 2147483647 \<longrightarrow>
                 numGlobalElementsOf P = P * 5
               \<and> zeros = replicate P (replicate 5 (st_zero T))
               \<and> garbage = map (\<lambda>r. map (\<lambda>i. uninitialized E r i)
                   [0..<5]) [0..<P]
               \<and> random = map (\<lambda>r. map (\<lambda>i. randomValue E r i)
                   [0..<5]) [0..<P])"
    unfolding Let_def using run fit by (rule conjI)
qed

theorem three_vectors_witness:
  "\<exists>w1. buildMaps Tpetra 2 0 (printHeader exampleEnv emptyWorld) = Inr (0, 1, w1)
      \<and> (\<exists>w2. buildVectors exprTraits exampleEnv 0 w1 = (0, 1, 2, w2)
            \<and> vecs w2 =
                [\<lparr> vmap = 0, vdata = [[Zero, Zero, Zero, Zero, Zero],
                                      [Zero, Zero, Zero, Zero, Zero]] \<rparr>,
                 \<lparr> vmap = 0, vdata = [[Zero, Zero, Zero, Zero, Zero],
                                      [Zero, Zero, Zero, Zero, Zero]] \<rparr>,
                 \<lparr> vmap = 0, vdata
                     = [[Entry 0 0, Entry 0 1, Entry 0 2, Entry 0 3, Entry 0 4],
                                      [Entry 1 0, Entry 1 1, Entry 1 2, Entry 1 3, Entry 1 4]]
                                          \<rparr>])"
proof -
  have b: "(2::nat) * 5 \<le> 2147483647" by simp
  obtain w1 where w1: "buildMaps Tpetra 2 0 (printHeader exampleEnv emptyWorld) = Inr (0, 1, w1)"
    by (simp add: buildMaps_Tpetra [OF b] printHeader_eq emptyWorld_def)
  have u: "uniformCount 10 2 r = 5" for r
    by (simp add: uniformCount_def)
  note run = three_vectors [OF w1, of exprTraits, unfolded Let_def, THEN conjunct1, THEN
      conjunct1]
  show ?thesis
    using w1 run
    by (intro exI [of _ w1])
       (auto simp add: numGlobalElementsOf_fits u upt_0_5 upt_0_2 replicate_5 exprTraits_def
          exampleEnv_def split: prod.splits)
qed

text \<open>
  Claim C7. In a completed run \<open>z\<close> holds the random values (five on every process
  where \<open>5 * P\<close> fits an \<open>int\<close>), \<open>x\<close> is the vector \<open>beta*ones + alpha*z\<close> computed
  from \<open>z\<close> alone, and so the 2-norm of \<open>x\<close>, which the routine prints after
  \<open>Norm of x?: \<close>, is the 2-norm of that vector. This holds in every arithmetic of the
  scalars, as long as both sides compute in the same one.
\<close>

theorem norm_of_x_independent:
  assumes "exampleRoutine T L E P myRank emptyWorld = Inr w"
  shows "vdata (vecs w ! 2) =
           map (\<lambda>r. map (\<lambda>i. randomValue E r i)
               [0..<uniformCount (numGlobalElementsOf P) P r])
               [0..<P]
       \<and> (P * 5 \<le> 2147483647 \<longrightarrow>
            vdata (vecs w ! 2) = map (\<lambda>r. map (\<lambda>i. randomValue E r i)
                [0..<5]) [0..<P])
       \<and> vdata (vecs w ! 0) = beta_ones_plus_alpha_z T (vdata (vecs w ! 2))
       \<and> norm2_of T (vdata (vecs w ! 0))
           = norm2_of T (beta_ones_plus_alpha_z T (vdata (vecs w ! 2)))
       \<and> out w ! 11 = Str ''Norm of x?: ''
       \<and> out w ! 12 = ScalarVal (norm2_of T (beta_ones_plus_alpha_z T (vdata (vecs w ! 2))))"
proof -
  note c = exampleRoutine_completed [OF assms]
  have z: "vdata (vecs w ! 2) =
           map (\<lambda>r. map (\<lambda>i. randomValue E r i)
               [0..<uniformCount (numGlobalElementsOf P) P r])
               [0..<P]"
    by (simp add: c(1))
  have z5: "P * 5 \<le> 2147483647 \<longrightarrow>
            vdata (vecs w ! 2) = map (\<lambda>r. map (\<lambda>i. randomValue E r i)
                [0..<5]) [0..<P]"
    unfolding z using rows_fit [of P "\<lambda>r i. randomValue E r i"] by blast
  have x: "vdata (vecs w ! 0) = beta_ones_plus_alpha_z T (vdata (vecs w ! 2))"
    by (simp add: c(1) beta_ones_plus_alpha_z_def Let_def zip_map_same comp_def)
  have o: "out w ! 11 = Str ''Norm of x?: ''"
      "out w ! 12 = ScalarVal (norm2_of T (vdata (vecs w ! 0)))"
    unfolding c(3) by (simp_all add: numeral_eq_Suc)
  show ?thesis
    using z z5 o unfolding x by simp
qed

theorem norm_of_x_independent_witness:
  "\<exists>w. exampleRoutine exprTraits Tpetra exampleEnv 1 0 emptyWorld = Inr w
     \<and> vdata (vecs w ! 2) = [[Entry 0 0, Entry 0 1, Entry 0 2, Entry 0 3, Entry 0 4]]
     \<and> norm2_of exprTraits (vdata (vecs w ! 0))
         = norm2_of exprTraits (beta_ones_plus_alpha_z exprTraits (vdata (vecs w ! 2)))"
proof -
  have b: "(1::nat) * 5 \<le> 2147483647" by simp
  obtain w where w: "exampleRoutine exprTraits Tpetra exampleEnv 1 0 emptyWorld = Inr w"
    using exampleRoutine_Tpetra [OF b] by blast
  note t = norm_of_x_independent [OF w, THEN conjunct2]
  note z = t [THEN conjunct1, rule_format, OF b]
  note n = t [THEN conjunct2, THEN conjunct2, THEN conjunct1]
  show ?thesis
    using w z n
    by (intro exI [of _ w]) (simp add: exampleEnv_def upt_0_5)
qed

text \<open>
  Claim C8. The two Maps are different objects, also when they coincide as
  distributions. Every Vector refers to \<open>contigMap\<close>: when it is built, when each of the
  two updates runs, and at the end. No Vector is ever built over \<open>cyclicMap\<close>.
\<close>

theorem vectors_on_contigMap:
  assumes "buildMaps L P myRank (printHeader E emptyWorld) = Inr (contigMap, cyclicMap, w1)"
  shows "contigMap \<noteq> cyclicMap
       \<and> (\<exists>x y z w2.
             buildVectors T E contigMap w1 = (x, y, z, w2)
           \<and> exampleRoutine T L E P myRank emptyWorld = Inr (arithmetic T x y z w2)
           \<and> map vmap (vecs w2) = [contigMap, contigMap, contigMap]
           \<and> (let alpha = st_lit T (314159 / 100000);
                   beta = st_lit T (271828 / 100000);
                   wa = putScalar x (st_one T) w2;
                   wb = update2 T x alpha z beta wa;
                   wc = putScalar y (st_lit T 42) wb
               in map vmap (vecs wa) = [contigMap, contigMap, contigMap]
                \<and> map vmap (vecs wc) = [contigMap, contigMap, contigMap])
           \<and> map vmap (vecs (arithmetic T x y z w2)) = [contigMap, contigMap, contigMap]
           \<and> maps (arithmetic T x y z w2) ! contigMap
               = Map_uniform (numGlobalElementsOf P) 0 P
           \<and> filter (usesMap contigMap) (calls (arithmetic T x y z w2))
                = [Call_Vector contigMap True, Call_Vector contigMap False]
           \<and> filter (usesMap cyclicMap) (calls (arithmetic T x y z w2)) = [])"
proof -
  note a = after_buildMaps [OF assms]
  have m: "maps w1 ! 0 = Map_uniform (numGlobalElementsOf P) 0 P" by (simp add: a)
  have bv: "buildVectors T E 0 w1 =
     (0, Suc 0, Suc (Suc 0),
      w1\<lparr> vecs :=
            [\<lparr> vmap = 0, vdata = map (\<lambda>r. map (\<lambda>i. st_zero T)
                [0..<uniformCount (numGlobalElementsOf P) P r]) [0..<P] \<rparr>,
             \<lparr> vmap = 0, vdata = map (\<lambda>r. map (\<lambda>i. st_zero T)
                 [0..<uniformCount (numGlobalElementsOf P) P r]) [0..<P] \<rparr>,
             \<lparr> vmap = 0, vdata
                 = map (\<lambda>r. map (\<lambda>i. randomValue E r i)
                     [0..<uniformCount (numGlobalElementsOf P) P r]) [0..<P] \<rparr>],
         calls := calls w1 @ [Call_Vector 0 True, Call_Vector_copy 0,
                             Call_Vector 0 False, Call_randomize (Suc (Suc 0))] \<rparr>)"
    using buildVectors_eq [OF m, of T E] by (simp add: a)
  have c: "calls w1 = [Call_system ''echo helloooo!'', Call_Map_uniform (numGlobalElementsOf P) 0,
                       Call_Map_fromList (numGlobalElementsOf P) (elementListOf P myRank) 0]"
    using buildMaps_Inr(3) [OF assms] by (simp add: printHeader_eq emptyWorld_def)
  show ?thesis
    unfolding a bv
    apply (intro conjI exI)
            apply simp
           apply (rule refl)
          apply (simp add: exampleRoutine_def assms [unfolded a] bv)
         apply simp
        apply (simp add: Let_def putScalar_def update2_def modify_def logCall_def)
       apply (simp add: arithmetic_eq Let_def)
      apply (simp add: arithmetic_eq Let_def a)
     apply (simp add: arithmetic_eq Let_def c)
    apply (simp add: arithmetic_eq Let_def c)
    done
qed

theorem vectors_on_contigMap_witness:
  "\<exists>w1. buildMaps Tpetra 1 0 (printHeader exampleEnv emptyWorld) = Inr (0, 1, w1)
      \<and> Tpetra_isSameAs (maps w1 ! 0) (maps w1 ! 1)
      \<and> (\<exists>x y z w2. buildVectors exprTraits exampleEnv 0 w1 = (x, y, z, w2)
            \<and> map vmap (vecs (arithmetic exprTraits x y z w2)) = [0, 0, 0]
            \<and> filter (usesMap 1) (calls (arithmetic exprTraits x y z w2)) = [])"
proof -
  obtain w1 where w1: "buildMaps Tpetra 1 0 (printHeader exampleEnv emptyWorld) = Inr (0, 1, w1)"
    using buildMaps_Tpetra [of 1 0 "printHeader exampleEnv emptyWorld"]
    by (simp add: printHeader_eq emptyWorld_def)
  have "Tpetra_isSameAs (maps w1 ! 0) (maps w1 ! 1)"
    using contig_cyclic_same_1 by (simp add: after_buildMaps(4) [OF w1])
  then show ?thesis
    using w1 vectors_on_contigMap [OF w1, of exprTraits]
    by (intro exI [of _ w1]) auto
qed

text \<open>
  Claim C9. The routine runs the shell command \<open>echo helloooo!\<close> before it builds any
  Map, and writes the status to its output stream. A completed run has made this one
  call of \<open>system\<close> and no other, as its first call. The status is not used again: with
  another status the routine throws the same exception or ends in the same world, but
  for that one item of the output.
\<close>

theorem one_shell_command:
  "calls (printHeader E emptyWorld) = [Call_system ''echo helloooo!'']
   \<and> maps (printHeader E emptyWorld) = []
   \<and> out (printHeader E emptyWorld) =
        [Str (version E), Endl, Endl, Str ''This is a test'', Endl,
         IntVal (systemStatus E ''echo helloooo!'')]
   \<and> (\<forall>w. exampleRoutine T L E P myRank emptyWorld = Inr w \<longrightarrow>
          filter isSystemCall (calls w) = [Call_system ''echo helloooo!'']
        \<and> take 3 (calls w) =
            [Call_system ''echo helloooo!'', Call_Map_uniform (numGlobalElementsOf P) 0,
             Call_Map_fromList (numGlobalElementsOf P) (elementListOf P myRank) 0]
        \<and> take 6 (out w) =
            [Str (version E), Endl, Endl, Str ''This is a test'', Endl,
             IntVal (systemStatus E ''echo helloooo!'')])
   \<and> exampleRoutine T L (E\<lparr> systemStatus := f \<rparr>) P myRank emptyWorld =
       (case exampleRoutine T L E P myRank emptyWorld of
          Inl e \<Rightarrow> Inl e
        | Inr w \<Rightarrow> Inr (w\<lparr> out := (out w)[5 := IntVal (f ''echo helloooo!'')] \<rparr>))"
proof (intro conjI allI impI)
  fix w assume w: "exampleRoutine T L E P myRank emptyWorld = Inr w"
  note c = exampleRoutine_completed [OF w]
  show "filter isSystemCall (calls w) = [Call_system ''echo helloooo!'']"
    unfolding c(2) by simp
  show "take 3 (calls w) =
            [Call_system ''echo helloooo!'', Call_Map_uniform (numGlobalElementsOf P) 0,
             Call_Map_fromList (numGlobalElementsOf P) (elementListOf P myRank) 0]"
    unfolding c(2) by (simp add: numeral_eq_Suc)
  show "take 6 (out w) =
            [Str (version E), Endl, Endl, Str ''This is a test'', Endl,
             IntVal (systemStatus E ''echo helloooo!'')]"
    unfolding c(3) by (simp add: numeral_eq_Suc)
next
  show "exampleRoutine T L (E\<lparr> systemStatus := f \<rparr>) P myRank emptyWorld =
       (case exampleRoutine T L E P myRank emptyWorld of
          Inl e \<Rightarrow> Inl e
        | Inr w \<Rightarrow> Inr (w\<lparr> out := (out w)[5 := IntVal (f ''echo helloooo!'')] \<rparr>))"
  proof (cases "buildMaps L P myRank (printHeader E emptyWorld)")
    case (Inl e)
    then have "buildMaps L P myRank (printHeader (E\<lparr> systemStatus := f \<rparr>)
        emptyWorld) = Inl e"
      by (rule buildMaps_frame)
    with Inl show ?thesis
      unfolding exampleRoutine_eq by simp
  next
    case (Inr t)
    then have "\<exists>t'. buildMaps L P myRank (printHeader (E\<lparr> systemStatus := f
        \<rparr>) emptyWorld) = Inr t'"
      unfolding buildMaps_eq by (simp split: if_splits)
    then obtain t' where
      "buildMaps L P myRank (printHeader (E\<lparr> systemStatus := f \<rparr>) emptyWorld)
          = Inr t'"
      by blast
    with Inr show ?thesis
      unfolding exampleRoutine_eq by (simp add: Let_def numeral_eq_Suc)
  qed
qed (simp_all add: printHeader_eq emptyWorld_def)

theorem one_shell_command_witness:
  "\<exists>w. exampleRoutine exprTraits Tpetra exampleEnv 2 0 emptyWorld = Inr w
     \<and> filter isSystemCall (calls w) = [Call_system ''echo helloooo!'']
     \<and> take 6 (out w) = [Str ''Tpetra'', Endl, Endl, Str ''This is a test'', Endl, IntVal 0]"
proof -
  obtain w where w: "exampleRoutine exprTraits Tpetra exampleEnv 2 0 emptyWorld = Inr w"
    using exampleRoutine_Tpetra [of 2 exprTraits exampleEnv 0] by auto
  show ?thesis
    using w one_shell_command [where T = exprTraits and L = Tpetra and E = exampleEnv
        and P = 2 and myRank = 0 and f = "\<lambda>_. 0"]
    by (intro exI [of _ w]) (simp add: exampleEnv_def)
qed

text \<open>
  Claim C10. Whenever \<open>main\<close> returns, the exit code is 0. Each of the four
  assertions, when it fails, throws a \<open>std::logic_error\<close> that nothing catches, so the
  process ends without an exit code from \<open>main\<close>; when none fails, \<open>main\<close> returns 0
  with the output of the routine on process 0 and none on the others.
\<close>

theorem main_exit_code:
  "(\<forall>code output. main T L E P myRank = Inr (code, output) \<longrightarrow> code = 0)
   \<and> (let contigMap = Map_uniform (numGlobalElementsOf P) 0 P;
           cyclicMap = Map_fromLists (numGlobalElementsOf P) (map (elementListOf P) [0..<P]) 0;
           fails1 = (\<not> isContiguous L contigMap);
           fails2 = (1 < P \<and> isContiguous L cyclicMap);
           fails3 = (\<not> isCompatible L contigMap cyclicMap);
           fails4 = (1 < P \<and> isSameAs L contigMap cyclicMap)
       in (fails1 \<longrightarrow> main T L E P myRank =
             Inl (logic_error ''The supposedly contiguous Map isn't contiguous.''))
        \<and> (\<not> fails1 \<and> fails2 \<longrightarrow> main T L E P myRank =
             Inl (logic_error ''The cyclic Map claims to be contiguous.''))
        \<and> (\<not> fails1 \<and> \<not> fails2
            \<and> fails3 \<longrightarrow> main T L E P myRank =
             Inl (logic_error ''contigMap should be compatible with cyclicMap, but it's not.''))
        \<and> (\<not> fails1 \<and> \<not> fails2 \<and> \<not> fails3
            \<and> fails4 \<longrightarrow> main T L E P myRank =
             Inl (logic_error ''contigMap should be compatible with cyclicMap, but it's not.''))
        \<and> (\<not> fails1 \<and> \<not> fails2 \<and> \<not> fails3
            \<and> \<not> fails4 \<longrightarrow>
             (\<exists>w. exampleRoutine T L E P myRank emptyWorld = Inr w
                \<and> main T L E P myRank = Inr (0, if myRank = 0 then out w else []))))"
proof
  show "\<forall>code output. main T L E P myRank = Inr (code, output) \<longrightarrow> code = 0"
    by (auto simp add: main_def split: sum.splits)
next
  show "let contigMap = Map_uniform (numGlobalElementsOf P) 0 P;
           cyclicMap = Map_fromLists (numGlobalElementsOf P) (map (elementListOf P) [0..<P]) 0;
           fails1 = (\<not> isContiguous L contigMap);
           fails2 = (1 < P \<and> isContiguous L cyclicMap);
           fails3 = (\<not> isCompatible L contigMap cyclicMap);
           fails4 = (1 < P \<and> isSameAs L contigMap cyclicMap)
       in (fails1 \<longrightarrow> main T L E P myRank =
             Inl (logic_error ''The supposedly contiguous Map isn't contiguous.''))
        \<and> (\<not> fails1 \<and> fails2 \<longrightarrow> main T L E P myRank =
             Inl (logic_error ''The cyclic Map claims to be contiguous.''))
        \<and> (\<not> fails1 \<and> \<not> fails2
            \<and> fails3 \<longrightarrow> main T L E P myRank =
             Inl (logic_error ''contigMap should be compatible with cyclicMap, but it's not.''))
        \<and> (\<not> fails1 \<and> \<not> fails2 \<and> \<not> fails3
            \<and> fails4 \<longrightarrow> main T L E P myRank =
             Inl (logic_error ''contigMap should be compatible with cyclicMap, but it's not.''))
        \<and> (\<not> fails1 \<and> \<not> fails2 \<and> \<not> fails3
            \<and> \<not> fails4 \<longrightarrow>
             (\<exists>w. exampleRoutine T L E P myRank emptyWorld = Inr w
                \<and> main T L E P myRank = Inr (0, if myRank = 0 then out w else [])))"
    unfolding Let_def main_def exampleRoutine_eq buildMaps_eq
    by simp
qed

theorem main_exit_code_witness:
  "(\<exists>output. main exprTraits Tpetra exampleEnv 2 0 = Inr (0, output))
   \<and> main exprTraits (Tpetra\<lparr> isCompatible := \<lambda>m1 m2. False \<rparr>)
       exampleEnv 2 0
       = Inl (logic_error ''contigMap should be compatible with cyclicMap, but it's not.'')"
proof
  show "\<exists>output. main exprTraits Tpetra exampleEnv 2 0 = Inr (0, output)"
    using main_exit_code [where T = exprTraits and L = Tpetra and E = exampleEnv
        and P = 2 and myRank = 0]
      contig_cyclic_compatible [of 2]
    by (auto simp add: Let_def Tpetra_sel Map_uniform_contiguous cyclic_contiguous_iff
          contig_cyclic_not_same)
next
  show "main exprTraits (Tpetra\<lparr> isCompatible := \<lambda>m1 m2. False \<rparr>)
      exampleEnv 2 0
       = Inl (logic_error ''contigMap should be compatible with cyclicMap, but it's not.'')"
    using main_exit_code [where T = exprTraits
        and L = "Tpetra\<lparr> isCompatible := \<lambda>m1 m2. False \<rparr>" and E = exampleEnv
        and P = 2 and myRank = 0]
    by (simp add: Let_def Tpetra_sel Map_uniform_contiguous cyclic_contiguous_iff)
qed

end
